theory Spec2Isabelle
  imports Main
begin

section \<open>Values, exceptions and documents\<close>

text \<open>
  The credential and session core of the guard-management backend: the JWT service
  (\<^verbatim>\<open>services/jwt_service.py\<close>), the authentication dependencies
  (\<^verbatim>\<open>services/auth_service.py\<close>), the login route (\<^verbatim>\<open>routes/auth_routes.py\<close>) and the
  OTP-gated password change of the super admin (\<^verbatim>\<open>routes/super_admin_routes.py\<close>).

  Python exceptions are values: a function that may raise returns \<open>exn + 'a\<close>, with
  \<open>Inl\<close> for the exception that reaches the caller. An \<open>HTTPException\<close> carries its
  status code and detail; any other exception carries the names of its classes below
  \<open>Exception\<close> (most derived first) and its message. Every exception of the model is an
  instance of \<open>Exception\<close>, so \<^verbatim>\<open>except Exception\<close> catches all of them.
\<close>

datatype exn =
    HTTPException nat string
  | PyExc "string list" string

fun isinstance :: "exn \<Rightarrow> string \<Rightarrow> bool" where
  "isinstance (HTTPException sc d) c = (c = ''HTTPException'')"
| "isinstance (PyExc cs m) c = (c \<in> set cs)"

text \<open>The values a decoded token payload can hold, and Python's truth test on them.\<close>

datatype jval = JStr string | JInt int | JBool bool | JNull

type_synonym claims = "string \<rightharpoonup> jval"

fun truthy :: "jval option \<Rightarrow> bool" where
  "truthy None = False"
| "truthy (Some (JStr s)) = (s \<noteq> [])"
| "truthy (Some (JInt n)) = (n \<noteq> 0)"
| "truthy (Some (JBool b)) = b"
| "truthy (Some JNull) = False"

text \<open>\<^verbatim>\<open>models.UserRole\<close>, a \<^verbatim>\<open>str\<close> enum: a member equals the string that is its value.\<close>

datatype UserRole = SUPER_ADMIN | ADMIN | SUPERVISOR | GUARD

fun role_value :: "UserRole \<Rightarrow> string" where
  "role_value SUPER_ADMIN = ''SUPER_ADMIN''"
| "role_value ADMIN = ''ADMIN''"
| "role_value SUPERVISOR = ''SUPERVISOR''"
| "role_value GUARD = ''GUARD''"

text \<open>
  An account document of the \<^verbatim>\<open>users\<close>, \<^verbatim>\<open>supervisors\<close> or \<^verbatim>\<open>guards\<close> collection. A field
  that a document may lack is an option (\<open>None\<close>: the key is absent, so \<^verbatim>\<open>.get\<close> gives
  its default). Passwords and password hashes are Python strings as lists of code points;
  identifiers and messages are plain strings. Times are seconds.
\<close>

type_synonym pystr = "nat list"
type_synonym bytes = "nat list"

record account =
  oid :: nat
  email :: "string option"
  phone :: "string option"
  name :: "string option"
  role :: "string option"
  passwordHash :: "pystr option"
  isActive :: "bool option"
  lastLogin :: "int option"
  updatedAt :: "int option"
  areaCity :: "string option"

text \<open>
  The database: each collection getter of \<^verbatim>\<open>database.py\<close> returns \<^verbatim>\<open>None\<close> when the
  database is not connected. A collection is the list of its documents in natural order;
  \<^verbatim>\<open>find_one\<close> returns the first document that matches.
\<close>

record otp_doc =
  otp_id :: nat
  otp_email :: string
  otpHash :: string
  purpose :: string
  expiresAt :: int
  attempts :: int
  createdAt :: int

record db =
  users :: "account list option"
  supervisors :: "account list option"
  guards :: "account list option"
  otp_tokens :: "otp_doc list option"

text \<open>
  The collection operations the routes use, on the documents that satisfy a filter:
  \<^verbatim>\<open>delete_one\<close> and \<^verbatim>\<open>update_one\<close> act on the first match only, \<^verbatim>\<open>delete_many\<close> on
  all of them, and \<^verbatim>\<open>insert_one\<close> appends.
\<close>

definition find_one :: "('a \<Rightarrow> bool) \<Rightarrow> 'a list \<Rightarrow> 'a option" where
  "find_one P coll = find P coll"

fun delete_one :: "('a \<Rightarrow> bool) \<Rightarrow> 'a list \<Rightarrow> 'a list" where
  "delete_one P [] = []"
| "delete_one P (x # xs) = (if P x then xs else x # delete_one P xs)"

fun update_one :: "('a \<Rightarrow> bool) \<Rightarrow> ('a \<Rightarrow> 'a) \<Rightarrow> 'a list \<Rightarrow> 'a list" where
  "update_one P f [] = []"
| "update_one P f (x # xs) = (if P x then f x # xs else x # update_one P f xs)"

definition delete_many :: "('a \<Rightarrow> bool) \<Rightarrow> 'a list \<Rightarrow> 'a list" where
  "delete_many P coll = filter (\<lambda>x. \<not> P x) coll"

definition insert_one :: "'a \<Rightarrow> 'a list \<Rightarrow> 'a list" where
  "insert_one x coll = coll @ [x]"

section \<open>Settings\<close>

text \<open>The settings of \<^verbatim>\<open>config.py\<close> that concern tokens and OTPs, with their defaults.\<close>

record settings =
  ACCESS_TOKEN_EXPIRE_MINUTES :: int
  REFRESH_TOKEN_EXPIRE_DAYS :: int
  OTP_EXPIRE_MINUTES :: int
  OTP_MAX_ATTEMPTS :: int
  OTP_RATE_LIMIT_MINUTES :: int

definition default_settings :: settings where
  "default_settings =
     \<lparr>ACCESS_TOKEN_EXPIRE_MINUTES = 30, REFRESH_TOKEN_EXPIRE_DAYS = 7, OTP_EXPIRE_MINUTES = 10,
      OTP_MAX_ATTEMPTS = 3, OTP_RATE_LIMIT_MINUTES = 1\<rparr>"

section \<open>Token validation\<close>

text \<open>
  The module imported as \<^verbatim>\<open>jwt\<close> is not part of the repository. It is a parameter: the
  names its namespace binds, and what \<^verbatim>\<open>jwt.decode(token, secret_key, algorithms=[algorithm])\<close>
  and \<^verbatim>\<open>jwt.encode\<close> do (the key and the algorithm are fixed by the settings).
\<close>

record jwt_module =
  exports :: "string list"
  decode :: "string \<Rightarrow> exn + claims"
  encode :: "claims \<Rightarrow> exn + string"

text \<open>
  Evaluating the clause \<^verbatim>\<open>except jwt.NAME:\<close> against a raised exception: the attribute is
  looked up first, and a name the module does not bind raises \<^verbatim>\<open>AttributeError\<close>.
\<close>

definition except_clause :: "jwt_module \<Rightarrow> string \<Rightarrow> exn \<Rightarrow> exn + bool" where
  "except_clause m nm e =
     (if nm \<in> set (exports m) then Inr (isinstance e nm)
      else Inl (PyExc [''AttributeError''] (''module jwt has no attribute '' @ nm)))"

definition verify_token :: "jwt_module \<Rightarrow> string \<Rightarrow> string \<Rightarrow> exn + claims option" where
  "verify_token m token token_type =
     (case decode m token of
        Inr payload \<Rightarrow>
          if payload ''type'' \<noteq> Some (JStr token_type) then Inr None
          else Inr (Some payload)
      | Inl e \<Rightarrow>
          (case except_clause m ''ExpiredSignatureError'' e of
             Inl a \<Rightarrow> Inl a
           | Inr True \<Rightarrow> Inr None
           | Inr False \<Rightarrow>
               (case except_clause m ''JWTError'' e of
                  Inl a \<Rightarrow> Inl a
                | Inr True \<Rightarrow> Inr None
                | Inr False \<Rightarrow> Inl e)))"

section \<open>Authentication dependencies\<close>

definition AuthenticationError :: "string \<Rightarrow> exn" where
  "AuthenticationError d = HTTPException 401 d"

definition AuthorizationError :: "string \<Rightarrow> exn" where
  "AuthorizationError d = HTTPException 403 d"

text \<open>
  \<^verbatim>\<open>bson.ObjectId(user_id)\<close> is a parameter \<open>object_id\<close>: \<open>None\<close> when it raises. A
  \<^verbatim>\<open>user_id\<close> claim that is not a string makes it raise.
\<close>

definition to_object_id :: "(string \<Rightarrow> nat option) \<Rightarrow> jval option \<Rightarrow> nat option" where
  "to_object_id object_id v = (case v of Some (JStr s) \<Rightarrow> object_id s | _ \<Rightarrow> None)"

definition role_collection :: "db \<Rightarrow> jval option \<Rightarrow> exn + account list option" where
  "role_collection d r =
     (if r = Some (JStr ''ADMIN'') \<or> r = Some (JStr ''SUPER_ADMIN'') then Inr (users d)
      else if r = Some (JStr ''SUPERVISOR'') then Inr (supervisors d)
      else if r = Some (JStr ''GUARD'') then Inr (guards d)
      else Inl (AuthenticationError ''Invalid user role''))"

definition get_current_user ::
  "jwt_module \<Rightarrow> (string \<Rightarrow> nat option) \<Rightarrow> db \<Rightarrow> string option \<Rightarrow> exn + account" where
  "get_current_user m object_id d token =
     (case token of
        None \<Rightarrow> Inl (AuthenticationError ''Authentication required'')
      | Some t \<Rightarrow>
        if t = [] then Inl (AuthenticationError ''Authentication required'')
        else
          (case verify_token m t ''access'' of
             Inl e \<Rightarrow> Inl e
           | Inr None \<Rightarrow> Inl (AuthenticationError ''Invalid or expired token'')
           | Inr (Some payload) \<Rightarrow>
               if payload = Map.empty then Inl (AuthenticationError ''Invalid or expired token'')
               else if \<not> truthy (payload ''user_id'') \<or> \<not> truthy (payload ''role'')
               then Inl (AuthenticationError ''Invalid token payload'')
               else
                 (case role_collection d (payload ''role'') of
                    Inl e \<Rightarrow> Inl e
                  | Inr None \<Rightarrow> Inl (HTTPException 503 ''Database not available'')
                  | Inr (Some collection) \<Rightarrow>
                      (case to_object_id object_id (payload ''user_id'') of
                         None \<Rightarrow> Inl (AuthenticationError ''Invalid user ID format'')
                       | Some user_object_id \<Rightarrow>
                           (case find_one (\<lambda>u. oid u = user_object_id) collection of
                              None \<Rightarrow> Inl (AuthenticationError ''User not found'')
                            | Some user \<Rightarrow>
                                if isActive user \<noteq> Some True
                                then Inl (AuthenticationError ''Account is not active'')
                                else
                                  (case payload ''role'' of
                                     Some (JStr r) \<Rightarrow> Inr (user\<lparr>role := Some r\<rparr>)
                                   | _ \<Rightarrow> Inl (AuthenticationError ''Invalid user role'')))))))"

definition get_current_super_admin :: "account \<Rightarrow> exn + account" where
  "get_current_super_admin current_user =
     (if role current_user \<noteq> Some (role_value SUPER_ADMIN)
      then Inl (AuthorizationError ''Super admin access required'')
      else Inr current_user)"

definition get_current_admin :: "account \<Rightarrow> exn + account" where
  "get_current_admin current_user =
     (if role current_user \<noteq> Some (role_value ADMIN)
      then Inl (AuthorizationError ''Admin access required'')
      else Inr current_user)"

definition get_current_supervisor :: "account \<Rightarrow> exn + account" where
  "get_current_supervisor current_user =
     (if role current_user \<noteq> Some (role_value SUPERVISOR)
      then Inl (AuthorizationError ''Supervisor access required'')
      else Inr current_user)"

definition get_current_guard :: "account \<Rightarrow> exn + account" where
  "get_current_guard current_user =
     (if role current_user \<noteq> Some (role_value GUARD)
      then Inl (AuthorizationError ''Guard access required'')
      else Inr current_user)"

definition get_super_admin_or_admin :: "account \<Rightarrow> exn + account" where
  "get_super_admin_or_admin current_user =
     (if role current_user \<notin> set (map (Some \<circ> role_value) [SUPER_ADMIN, ADMIN])
      then Inl (AuthorizationError ''Super Admin or Admin access required'')
      else Inr current_user)"

definition get_admin_or_supervisor :: "account \<Rightarrow> exn + account" where
  "get_admin_or_supervisor current_user =
     (if role current_user \<notin> set (map (Some \<circ> role_value) [ADMIN, SUPERVISOR])
      then Inl (AuthorizationError ''Admin or Supervisor access required'')
      else Inr current_user)"

fun join :: "string \<Rightarrow> string list \<Rightarrow> string" where
  "join sep [] = []"
| "join sep [x] = x"
| "join sep (x # y # ys) = x @ sep @ join sep (y # ys)"

definition require_roles :: "UserRole list \<Rightarrow> account \<Rightarrow> exn + account" where
  "require_roles allowed_roles current_user =
     (case role current_user of
        None \<Rightarrow>
          Inl (AuthorizationError
                 (''Access denied. Required roles: '' @ join '', '' (map role_value allowed_roles)))
      | Some user_role \<Rightarrow>
          if user_role \<notin> set (map role_value allowed_roles)
          then Inl (AuthorizationError
                 (''Access denied. Required roles: '' @ join '', '' (map role_value allowed_roles)))
          else Inr current_user)"

text \<open>
  A route declared with \<^verbatim>\<open>Depends(require_roles(...))\<close>: FastAPI resolves
  \<^verbatim>\<open>get_current_user\<close> first and hands its result to the role checker; an exception of
  the inner dependency ends the request.
\<close>

definition protected_call ::
  "jwt_module \<Rightarrow> (string \<Rightarrow> nat option) \<Rightarrow> db \<Rightarrow> UserRole list \<Rightarrow> string option \<Rightarrow> exn + account" where
  "protected_call m object_id d allowed_roles token =
     (case get_current_user m object_id d token of
        Inl e \<Rightarrow> Inl e
      | Inr u \<Rightarrow> require_roles allowed_roles u)"

text \<open>
  A route declared with one of the fixed dependencies, such as
  \<^verbatim>\<open>Depends(get_current_admin)\<close>: the dependency receives what \<^verbatim>\<open>get_current_user\<close>
  returns.
\<close>

definition depends_on_current_user ::
  "(account \<Rightarrow> exn + account) \<Rightarrow> jwt_module \<Rightarrow> (string \<Rightarrow> nat option) \<Rightarrow> db \<Rightarrow> string option
     \<Rightarrow> exn + account" where
  "depends_on_current_user dependency m object_id d token =
     (case get_current_user m object_id d token of
        Inl e \<Rightarrow> Inl e
      | Inr current_user \<Rightarrow> dependency current_user)"

section \<open>Strings and bytes\<close>

text \<open>
  \<^verbatim>\<open>str.encode('utf-8')\<close> raises \<^verbatim>\<open>UnicodeEncodeError\<close> on a lone surrogate (\<open>None\<close>
  here). \<^verbatim>\<open>bytes.decode('utf-8')\<close> raises on a malformed sequence (\<open>None\<close>); with
  \<^verbatim>\<open>errors='ignore'\<close> the bytes that start no well-formed sequence are dropped.
\<close>

definition utf8_encode_char :: "nat \<Rightarrow> bytes option" where
  "utf8_encode_char c =
     (if c < 0x80 then Some [c]
      else if c < 0x800 then Some [0xC0 + c div 64, 0x80 + c mod 64]
      else if c < 0x10000 then
        (if 0xD800 \<le> c \<and> c \<le> 0xDFFF then None
         else Some [0xE0 + c div 4096, 0x80 + c div 64 mod 64, 0x80 + c mod 64])
      else if c < 0x110000 then
        Some [0xF0 + c div 262144, 0x80 + c div 4096 mod 64, 0x80 + c div 64 mod 64,
              0x80 + c mod 64]
      else None)"

fun utf8_encode :: "pystr \<Rightarrow> bytes option" where
  "utf8_encode [] = Some []"
| "utf8_encode (c # cs) =
     (case utf8_encode_char c of
        None \<Rightarrow> None
      | Some bs \<Rightarrow> (case utf8_encode cs of None \<Rightarrow> None | Some r \<Rightarrow> Some (bs @ r)))"

definition cont :: "nat \<Rightarrow> bool" where
  "cont b \<longleftrightarrow> 0x80 \<le> b \<and> b \<le> 0xBF"

definition b1_lo :: "nat \<Rightarrow> nat" where
  "b1_lo b0 = (if b0 = 0xE0 then 0xA0 else if b0 = 0xF0 then 0x90 else 0x80)"

definition b1_hi :: "nat \<Rightarrow> nat" where
  "b1_hi b0 = (if b0 = 0xED then 0x9F else if b0 = 0xF4 then 0x8F else 0xBF)"

text \<open>The code point at the head of a byte string and the number of bytes it takes.\<close>

fun utf8_head :: "bytes \<Rightarrow> (nat \<times> nat) option" where
  "utf8_head [] = None"
| "utf8_head (b0 # bs) =
     (if b0 < 0x80 then Some (b0, 1)
      else if 0xC2 \<le> b0 \<and> b0 \<le> 0xDF then
        (case bs of
           b1 # _ \<Rightarrow> if cont b1 then Some ((b0 - 0xC0) * 64 + (b1 - 0x80), 2) else None
         | _ \<Rightarrow> None)
      else if 0xE0 \<le> b0 \<and> b0 \<le> 0xEF then
        (case bs of
           b1 # b2 # _ \<Rightarrow>
             if b1_lo b0 \<le> b1 \<and> b1 \<le> b1_hi b0 \<and> cont b2
             then Some ((b0 - 0xE0) * 4096 + (b1 - 0x80) * 64 + (b2 - 0x80), 3) else None
         | _ \<Rightarrow> None)
      else if 0xF0 \<le> b0 \<and> b0 \<le> 0xF4 then
        (case bs of
           b1 # b2 # b3 # _ \<Rightarrow>
             if b1_lo b0 \<le> b1 \<and> b1 \<le> b1_hi b0 \<and> cont b2 \<and> cont b3
             then Some ((b0 - 0xF0) * 262144 + (b1 - 0x80) * 4096 + (b2 - 0x80) * 64
                        + (b3 - 0x80), 4)
             else None
         | _ \<Rightarrow> None)
      else None)"

function utf8_decode :: "bool \<Rightarrow> bytes \<Rightarrow> pystr option" where
  "utf8_decode ign [] = Some []"
| "utf8_decode ign (b # bs) =
     (case utf8_head (b # bs) of
        Some (c, n) \<Rightarrow> map_option ((#) c) (utf8_decode ign (drop n (b # bs)))
      | None \<Rightarrow> if ign then utf8_decode ign bs else None)"
  by pat_completeness auto
termination
  by (relation "measure (\<lambda>(ign, bs). length bs)")
     (auto split: if_splits list.splits)

definition UnicodeEncodeError :: exn where
  "UnicodeEncodeError = PyExc [''UnicodeEncodeError'', ''UnicodeError'', ''ValueError''] ''surrogates not allowed''"

definition UnicodeDecodeError :: exn where
  "UnicodeDecodeError = PyExc [''UnicodeDecodeError'', ''UnicodeError'', ''ValueError''] ''invalid start byte''"

definition ValueError :: "string \<Rightarrow> exn" where
  "ValueError msg = PyExc [''ValueError''] msg"

definition KeyError :: "string \<Rightarrow> exn" where
  "KeyError k = PyExc [''KeyError'', ''LookupError''] k"

section \<open>Password hashing\<close>

text \<open>
  The two hashing backends are parameters: \<^verbatim>\<open>pwd_context\<close> (passlib) and the \<^verbatim>\<open>bcrypt\<close>
  module, each of whose calls may raise; \<open>use_raw_bcrypt\<close> is the module-level flag set
  when passlib failed to initialise, \<open>import_bcrypt\<close> the exception of
  \<^verbatim>\<open>import bcrypt\<close> if it fails, \<open>gensalt\<close> the salt drawn by this call, and \<open>str_exc\<close>
  is \<^verbatim>\<open>str(e)\<close>.
\<close>

record pw_backend =
  use_raw_bcrypt :: bool
  pwd_context_hash :: "pystr \<Rightarrow> exn + pystr"
  pwd_context_verify :: "pystr \<Rightarrow> pystr \<Rightarrow> exn + bool"
  import_bcrypt :: "exn option"
  gensalt :: "nat \<Rightarrow> exn + bytes"
  hashpw :: "bytes \<Rightarrow> bytes \<Rightarrow> exn + bytes"
  checkpw :: "bytes \<Rightarrow> bytes \<Rightarrow> exn + bool"
  str_exc :: "exn \<Rightarrow> string"

text \<open>The body of the \<^verbatim>\<open>try\<close> of \<^verbatim>\<open>_hash_with_raw_bcrypt\<close>, then the function.\<close>

definition hash_with_raw_bcrypt_try :: "pw_backend \<Rightarrow> pystr \<Rightarrow> exn + pystr" where
  "hash_with_raw_bcrypt_try B password =
     (case import_bcrypt B of
        Some e \<Rightarrow> Inl e
      | None \<Rightarrow>
        (case utf8_encode password of
           None \<Rightarrow> Inl UnicodeEncodeError
         | Some password_bytes \<Rightarrow>
           (case gensalt B 12 of
              Inl e \<Rightarrow> Inl e
            | Inr salt \<Rightarrow>
              (case hashpw B (if length password_bytes > 72 then take 72 password_bytes
                              else password_bytes) salt of
                 Inl e \<Rightarrow> Inl e
               | Inr hash_bytes \<Rightarrow>
                 (case utf8_decode False hash_bytes of
                    None \<Rightarrow> Inl UnicodeDecodeError
                  | Some h \<Rightarrow> Inr h)))))"

definition hash_with_raw_bcrypt :: "pw_backend \<Rightarrow> pystr \<Rightarrow> exn + pystr" where
  "hash_with_raw_bcrypt B password =
     (case hash_with_raw_bcrypt_try B password of
        Inl e \<Rightarrow> Inl (ValueError (''Raw bcrypt hashing failed: '' @ str_exc B e))
      | Inr h \<Rightarrow> Inr h)"

text \<open>The inner \<^verbatim>\<open>try\<close> of \<^verbatim>\<open>hash_password\<close> (the passlib strategy), then the function.\<close>

definition hash_with_passlib_try :: "pw_backend \<Rightarrow> pystr \<Rightarrow> exn + pystr" where
  "hash_with_passlib_try B password =
     (case utf8_encode password of
        None \<Rightarrow> Inl UnicodeEncodeError
      | Some bs \<Rightarrow>
          if length bs > 72 then
            (case utf8_decode True (take 72 bs) of
               None \<Rightarrow> Inl UnicodeDecodeError
             | Some processed_password \<Rightarrow> pwd_context_hash B processed_password)
          else pwd_context_hash B password)"

definition hash_password :: "pw_backend \<Rightarrow> pystr \<Rightarrow> exn + pystr" where
  "hash_password B password =
     (case (if use_raw_bcrypt B then hash_with_raw_bcrypt B password
            else (case hash_with_passlib_try B password of
                    Inl passlib_error \<Rightarrow> hash_with_raw_bcrypt B password
                  | Inr h \<Rightarrow> Inr h)) of
        Inl e \<Rightarrow> Inl (ValueError (''Password hashing failed: '' @ str_exc B e))
      | Inr h \<Rightarrow> Inr h)"

definition verify_with_raw_bcrypt_try :: "pw_backend \<Rightarrow> pystr \<Rightarrow> pystr \<Rightarrow> exn + bool" where
  "verify_with_raw_bcrypt_try B plain_password hashed_password =
     (case import_bcrypt B of
        Some e \<Rightarrow> Inl e
      | None \<Rightarrow>
        (case utf8_encode plain_password of
           None \<Rightarrow> Inl UnicodeEncodeError
         | Some password_bytes \<Rightarrow>
           (case utf8_encode hashed_password of
              None \<Rightarrow> Inl UnicodeEncodeError
            | Some hash_bytes \<Rightarrow>
                checkpw B (if length password_bytes > 72 then take 72 password_bytes
                           else password_bytes) hash_bytes)))"

definition verify_with_raw_bcrypt :: "pw_backend \<Rightarrow> pystr \<Rightarrow> pystr \<Rightarrow> exn + bool" where
  "verify_with_raw_bcrypt B plain_password hashed_password =
     (case verify_with_raw_bcrypt_try B plain_password hashed_password of
        Inl e \<Rightarrow> Inr False
      | Inr b \<Rightarrow> Inr b)"

definition verify_password :: "pw_backend \<Rightarrow> pystr \<Rightarrow> pystr \<Rightarrow> exn + bool" where
  "verify_password B plain_password hashed_password =
     (case (if use_raw_bcrypt B then verify_with_raw_bcrypt B plain_password hashed_password
            else (case pwd_context_verify B plain_password hashed_password of
                    Inl passlib_error \<Rightarrow> verify_with_raw_bcrypt B plain_password hashed_password
                  | Inr b \<Rightarrow> Inr b)) of
        Inl e \<Rightarrow> Inr False
      | Inr b \<Rightarrow> Inr b)"

section \<open>One-time passwords\<close>

text \<open>
  \<^verbatim>\<open>generate_otp\<close> formats the draw \<open>r\<close> of \<^verbatim>\<open>secrets.randbelow(1000000)\<close> with
  \<^verbatim>\<open>:06d\<close>; \<^verbatim>\<open>hashlib.sha256(...).hexdigest()\<close> is the parameter \<open>sha256_hexdigest\<close>.
\<close>

definition digit :: "nat \<Rightarrow> char" where
  "digit n = ''0123456789'' ! (n mod 10)"

definition generate_otp :: "nat \<Rightarrow> string" where
  "generate_otp r = map (\<lambda>k. digit (r div 10 ^ k)) [5, 4, 3, 2, 1, 0]"

definition hash_otp :: "(string \<Rightarrow> string) \<Rightarrow> string \<Rightarrow> string" where
  "hash_otp sha256_hexdigest otp = sha256_hexdigest otp"

definition verify_otp :: "(string \<Rightarrow> string) \<Rightarrow> string \<Rightarrow> string \<Rightarrow> bool" where
  "verify_otp sha256_hexdigest plain_otp hashed_otp \<longleftrightarrow> sha256_hexdigest plain_otp = hashed_otp"

text \<open>
  A request reads the clock once: the calls of \<^verbatim>\<open>datetime.utcnow()\<close> within one request
  are taken to return the same time \<open>now\<close>, in seconds, so that one minute is 60 and ten
  minutes are 600.
\<close>

text \<open>
  What the OTP routes take from outside: the digest, the random draw, the \<^verbatim>\<open>_id\<close> that
  \<^verbatim>\<open>insert_one\<close> gives the new document, and the mailer (which returns a flag).
\<close>

record otp_services =
  sha256_hexdigest :: "string \<Rightarrow> string"
  randbelow :: nat
  fresh_id :: nat
  send_otp_email :: "string \<Rightarrow> string \<Rightarrow> string \<Rightarrow> bool"

definition is_password_change_otp :: "string \<Rightarrow> otp_doc \<Rightarrow> bool" where
  "is_password_change_otp e c \<longleftrightarrow> otp_email c = e \<and> purpose c = ''PASSWORD_CHANGE''"

definition request_password_change_otp ::
  "otp_services \<Rightarrow> int \<Rightarrow> db \<Rightarrow> account \<Rightarrow> (exn + string) \<times> db" where
  "request_password_change_otp S now d current_super_admin =
     (case otp_tokens d of
        None \<Rightarrow> (Inl (HTTPException 503 ''Database not available''), d)
      | Some otp_collection \<Rightarrow>
        (case email current_super_admin of
           None \<Rightarrow> (Inl (HTTPException 400 ''Super admin email not found''), d)
         | Some super_admin_email \<Rightarrow>
           if super_admin_email = []
           then (Inl (HTTPException 400 ''Super admin email not found''), d)
           else if find_one (\<lambda>c. is_password_change_otp super_admin_email c
                                 \<and> createdAt c \<ge> now - 60) otp_collection \<noteq> None
           then (Inl (HTTPException 429 ''Please wait 1 minute before requesting another OTP''), d)
           else
             let otp = generate_otp (randbelow S);
                 otp_data = \<lparr>otp_id = fresh_id S, otp_email = super_admin_email,
                             otpHash = hash_otp (sha256_hexdigest S) otp,
                             purpose = ''PASSWORD_CHANGE'', expiresAt = now + 600,
                             attempts = 0, createdAt = now\<rparr>;
                 stored = insert_one otp_data
                            (delete_many (is_password_change_otp super_admin_email) otp_collection)
             in if \<not> send_otp_email S super_admin_email otp ''password change''
                then (Inl (HTTPException 500 ''Failed to send OTP email. Please try again.''),
                      d\<lparr>otp_tokens :=
                          Some (delete_one (is_password_change_otp super_admin_email) stored)\<rparr>)
                else (Inr (''OTP sent to '' @ super_admin_email
                           @ ''. Please check your email. OTP expires in 10 minutes.''),
                      d\<lparr>otp_tokens := Some stored\<rparr>)))"

text \<open>
  The OTP check of \<^verbatim>\<open>change_super_admin_password\<close> (from the \<^verbatim>\<open>find_one\<close> on the OTP
  collection to the removal of the verified record), on the OTP collection alone.
\<close>

definition check_password_change_otp ::
  "(string \<Rightarrow> string) \<Rightarrow> int \<Rightarrow> otp_doc list \<Rightarrow> string \<Rightarrow> string \<Rightarrow> (exn + unit) \<times> otp_doc list" where
  "check_password_change_otp sha now otp_collection super_admin_email otp =
     (case find_one (is_password_change_otp super_admin_email) otp_collection of
        None \<Rightarrow>
          (Inl (HTTPException 400 ''No OTP found. Please request an OTP first.''), otp_collection)
      | Some otp_record \<Rightarrow>
          if now > expiresAt otp_record
          then (Inl (HTTPException 400 ''OTP has expired. Please request a new OTP.''),
                delete_one (\<lambda>c. otp_id c = otp_id otp_record) otp_collection)
          else if attempts otp_record \<ge> 3
          then (Inl (HTTPException 429 ''Maximum OTP attempts exceeded. Please request a new OTP.''),
                delete_one (\<lambda>c. otp_id c = otp_id otp_record) otp_collection)
          else if \<not> verify_otp sha otp (otpHash otp_record)
          then (Inl (HTTPException 400 ''Invalid OTP. Please check and try again.''),
                update_one (\<lambda>c. otp_id c = otp_id otp_record)
                  (\<lambda>c. c\<lparr>attempts := attempts c + 1\<rparr>) otp_collection)
          else (Inr (), delete_one (\<lambda>c. otp_id c = otp_id otp_record) otp_collection))"

definition change_super_admin_password ::
  "(string \<Rightarrow> string) \<Rightarrow> pw_backend \<Rightarrow> int \<Rightarrow> db \<Rightarrow> account \<Rightarrow> string \<Rightarrow> pystr
     \<Rightarrow> (exn + string) \<times> db" where
  "change_super_admin_password sha B now d current_super_admin otp newPassword =
     (case (users d, otp_tokens d) of
        (Some users_collection, Some otp_collection) \<Rightarrow>
          (case email current_super_admin of
             None \<Rightarrow> (Inl (HTTPException 400 ''Super admin email not found''), d)
           | Some super_admin_email \<Rightarrow>
             if super_admin_email = []
             then (Inl (HTTPException 400 ''Super admin email not found''), d)
             else
               (case check_password_change_otp sha now otp_collection super_admin_email otp of
                  (Inl e, otp_collection') \<Rightarrow> (Inl e, d\<lparr>otp_tokens := Some otp_collection'\<rparr>)
                | (Inr _, otp_collection') \<Rightarrow>
                  (case hash_password B newPassword of
                     Inl e \<Rightarrow>
                       (Inl (HTTPException 500 (''Failed to change password: '' @ str_exc B e)),
                        d\<lparr>otp_tokens := Some otp_collection'\<rparr>)
                   | Inr new_password_hash \<Rightarrow>
                       (Inr ''Password changed successfully'',
                        d\<lparr>otp_tokens := Some otp_collection',
                          users := Some (update_one (\<lambda>u. oid u = oid current_super_admin)
                            (\<lambda>u. u\<lparr>passwordHash := Some new_password_hash,
                                    updatedAt := Some now\<rparr>) users_collection)\<rparr>))))
      | _ \<Rightarrow> (Inl (HTTPException 503 ''Database not available''), d))"

text \<open>
  The document that a request at time \<open>now\<close> stores for the address \<open>e\<close>, and the
  challenges of a collection for one address and purpose.
\<close>

definition new_otp_doc :: "otp_services \<Rightarrow> int \<Rightarrow> string \<Rightarrow> otp_doc" where
  "new_otp_doc S now e =
     \<lparr>otp_id = fresh_id S, otp_email = e,
      otpHash = hash_otp (sha256_hexdigest S) (generate_otp (randbelow S)),
      purpose = ''PASSWORD_CHANGE'', expiresAt = now + 600, attempts = 0, createdAt = now\<rparr>"

definition challenges_for :: "string \<Rightarrow> string \<Rightarrow> otp_doc list \<Rightarrow> otp_doc list" where
  "challenges_for e p coll = filter (\<lambda>c. otp_email c = e \<and> purpose c = p) coll"

text \<open>
  A challenge is live at time \<open>t\<close> when the expiry test of the password change,
  \<^verbatim>\<open>utcnow() > expiresAt\<close>, does not hold. \<open>request_password_change_otp_writes\<close> lists
  the contents of the OTP collection after each write of a request that passes the rate
  limit: after \<^verbatim>\<open>delete_many\<close>, after \<^verbatim>\<open>insert_one\<close> and, when the mail is not sent,
  after \<^verbatim>\<open>delete_one\<close>.
\<close>

definition live :: "int \<Rightarrow> otp_doc \<Rightarrow> bool" where
  "live t c \<longleftrightarrow> \<not> t > expiresAt c"

definition request_password_change_otp_writes ::
  "otp_services \<Rightarrow> int \<Rightarrow> otp_doc list \<Rightarrow> string \<Rightarrow> otp_doc list list" where
  "request_password_change_otp_writes S now otp_collection super_admin_email =
     (let otp = generate_otp (randbelow S);
          deleted = delete_many (is_password_change_otp super_admin_email) otp_collection;
          stored = insert_one (new_otp_doc S now super_admin_email) deleted
      in [deleted, stored]
         @ (if \<not> send_otp_email S super_admin_email otp ''password change''
            then [delete_one (is_password_change_otp super_admin_email) stored] else []))"

section \<open>Login\<close>

definition create_access_token :: "jwt_module \<Rightarrow> int \<Rightarrow> int \<Rightarrow> claims \<Rightarrow> exn + string" where
  "create_access_token m access_token_expire_minutes now data =
     encode m (data(''exp'' \<mapsto> JInt (now + 60 * access_token_expire_minutes),
                    ''type'' \<mapsto> JStr ''access''))"

definition only_last_login :: "int \<Rightarrow> nat \<Rightarrow> account \<Rightarrow> account \<Rightarrow> bool" where
  "only_last_login now i a b \<longleftrightarrow> b = a \<or> (oid a = i \<and> b = a\<lparr>lastLogin := Some now\<rparr>)"

definition matches_contact :: "string \<Rightarrow> account \<Rightarrow> bool" where
  "matches_contact username u \<longleftrightarrow> email u = Some username \<or> phone u = Some username"

text \<open>
  The search of \<^verbatim>\<open>login\<close> through the three collections, with its enclosing
  \<^verbatim>\<open>try\<close>: the \<^verbatim>\<open>except Exception\<close> of that \<^verbatim>\<open>try\<close> also receives the
  \<^verbatim>\<open>HTTPException\<close> raised inside it when no collection has the identifier.
\<close>

definition find_login_user ::
  "pw_backend \<Rightarrow> account list \<Rightarrow> account list \<Rightarrow> account list \<Rightarrow> string
     \<Rightarrow> exn + account \<times> string" where
  "find_login_user B users_collection supervisors_collection guards_collection username =
     (case (case find_one (matches_contact username) users_collection of
              Some user \<Rightarrow> Inr (user, case role user of None \<Rightarrow> ''ADMIN'' | Some r \<Rightarrow> r)
            | None \<Rightarrow>
              (case find_one (matches_contact username) supervisors_collection of
                 Some user \<Rightarrow> Inr (user, ''SUPERVISOR'')
               | None \<Rightarrow>
                 (case find_one (matches_contact username) guards_collection of
                    Some user \<Rightarrow> Inr (user, ''GUARD'')
                  | None \<Rightarrow> Inl (HTTPException 401 ''Invalid email/phone or password'')))) of
        Inl e \<Rightarrow> Inl (HTTPException 500 (''Database query failed: '' @ str_exc B e))
      | Inr found \<Rightarrow> Inr found)"

text \<open>
  The last-login update: the collection is looked up in a dictionary with the keys
  \<^verbatim>\<open>ADMIN\<close>, \<^verbatim>\<open>SUPERVISOR\<close> and \<^verbatim>\<open>GUARD\<close>; a \<^verbatim>\<open>KeyError\<close> is caught and the login
  continues. The result is the database and the local \<^verbatim>\<open>user\<close> dictionary.
\<close>

definition set_last_login :: "int \<Rightarrow> nat \<Rightarrow> account list option \<Rightarrow> account list option" where
  "set_last_login now i coll =
     map_option (update_one (\<lambda>u. oid u = i) (\<lambda>u. u\<lparr>lastLogin := Some now\<rparr>)) coll"

definition update_last_login :: "int \<Rightarrow> db \<Rightarrow> account \<Rightarrow> string \<Rightarrow> db \<times> account" where
  "update_last_login now d user r =
     (if r = ''ADMIN''
      then (d\<lparr>users := set_last_login now (oid user) (users d)\<rparr>, user\<lparr>lastLogin := Some now\<rparr>)
      else if r = ''SUPERVISOR''
      then (d\<lparr>supervisors := set_last_login now (oid user) (supervisors d)\<rparr>,
            user\<lparr>lastLogin := Some now\<rparr>)
      else if r = ''GUARD''
      then (d\<lparr>guards := set_last_login now (oid user) (guards d)\<rparr>, user\<lparr>lastLogin := Some now\<rparr>)
      else (d, user))"

record user_summary =
  resp_id :: string
  resp_email :: "string option"
  resp_phone :: "string option"
  resp_name :: string
  resp_role :: string
  resp_areaCity :: "string option"
  resp_isActive :: "bool option"
  resp_lastLogin :: "int option"

record login_response =
  access_token :: string
  token_type :: string
  resp_user :: user_summary

definition opt_jval :: "string option \<Rightarrow> jval" where
  "opt_jval v = (case v of None \<Rightarrow> JNull | Some s \<Rightarrow> JStr s)"

definition internal_login_error :: "pw_backend \<Rightarrow> exn \<Rightarrow> exn" where
  "internal_login_error B e =
     HTTPException 500 (''Internal server error during login: '' @ str_exc B e)"

text \<open>
  \<open>str_object_id\<close> is \<^verbatim>\<open>str(user["_id"])\<close>. The result is the response or the exception,
  and the database as the request leaves it.
\<close>

definition login ::
  "jwt_module \<Rightarrow> pw_backend \<Rightarrow> (nat \<Rightarrow> string) \<Rightarrow> int \<Rightarrow> int \<Rightarrow> db \<Rightarrow> string \<Rightarrow> pystr
     \<Rightarrow> (exn + login_response) \<times> db" where
  "login m B str_object_id access_token_expire_minutes now d username password =
     (case (users d, supervisors d, guards d) of
        (Some users_collection, Some supervisors_collection, Some guards_collection) \<Rightarrow>
          (case find_login_user B users_collection supervisors_collection guards_collection
                  username of
             Inl e \<Rightarrow> (Inl e, d)
           | Inr (user, r) \<Rightarrow>
             (case passwordHash user of
                None \<Rightarrow> (Inl (HTTPException 500 ''User data corrupted - missing password''), d)
              | Some password_hash \<Rightarrow>
                if password_hash = []
                then (Inl (HTTPException 500 ''User data corrupted - missing password''), d)
                else
                  (case utf8_encode password of
                     None \<Rightarrow> (Inl (internal_login_error B UnicodeEncodeError), d)
                   | Some _ \<Rightarrow>
                     (case verify_password B password password_hash of
                        Inl e \<Rightarrow> (Inl (internal_login_error B e), d)
                      | Inr password_valid \<Rightarrow>
                        if \<not> password_valid then
                          (case verify_password B [] password_hash of
                             Inl e \<Rightarrow> (Inl (internal_login_error B e), d)
                           | Inr debug_result \<Rightarrow>
                               (Inl (HTTPException 401 ''Invalid email/phone or password''), d))
                        else if isActive user \<noteq> Some True then
                          (Inl (HTTPException 401
                             ''Account not activated. Please contact the administrator.''), d)
                        else
                          (case update_last_login now d user r of
                             (d', user') \<Rightarrow>
                               (case create_access_token m access_token_expire_minutes now
                                       [''user_id'' \<mapsto> JStr (str_object_id (oid user')),
                                        ''email'' \<mapsto> opt_jval (email user'),
                                        ''phone'' \<mapsto> opt_jval (phone user'),
                                        ''role'' \<mapsto> JStr r] of
                                  Inl e \<Rightarrow>
                                    (Inl (HTTPException 500
                                       (''Token creation failed: '' @ str_exc B e)), d')
                                | Inr tok \<Rightarrow>
                                    (case name user' of
                                       None \<Rightarrow>
                                         (Inl (internal_login_error B (KeyError ''name'')), d')
                                     | Some n \<Rightarrow>
                                         (Inr \<lparr>access_token = tok, token_type = ''bearer'',
                                               resp_user =
                                                 \<lparr>resp_id = str_object_id (oid user'),
                                                  resp_email = email user',
                                                  resp_phone = phone user',
                                                  resp_name = n, resp_role = r,
                                                  resp_areaCity = areaCity user',
                                                  resp_isActive = isActive user',
                                                  resp_lastLogin = lastLogin user'\<rparr>\<rparr>,
                                          d'))))))))
      | _ \<Rightarrow> (Inl (HTTPException 503 ''Database collections not available''), d))"

section \<open>The libraries behind the parameters\<close>

text \<open>
  The top-level module \<^verbatim>\<open>jwt\<close> with \<^verbatim>\<open>encode\<close>, \<^verbatim>\<open>decode\<close> and
  \<^verbatim>\<open>ExpiredSignatureError\<close> is PyJWT. Its namespace binds the names below and no
  \<^verbatim>\<open>JWTError\<close> (that name belongs to python-jose, imported as \<^verbatim>\<open>jose\<close>). Its
  \<^verbatim>\<open>decode\<close> raises \<^verbatim>\<open>DecodeError\<close> on a token that has fewer than three segments;
  what it does with any other token is the parameter \<open>dec\<close>.
\<close>

definition pyjwt_exports :: "string list" where
  "pyjwt_exports =
     [''encode'', ''decode'', ''get_unverified_header'', ''PyJWT'', ''PyJWS'', ''PyJWK'',
      ''PyJWKSet'', ''PyJWKClient'', ''register_algorithm'', ''unregister_algorithm'',
      ''DecodeError'', ''ExpiredSignatureError'', ''ImmatureSignatureError'',
      ''InvalidAlgorithmError'', ''InvalidAudienceError'', ''InvalidIssuedAtError'',
      ''InvalidIssuerError'', ''InvalidKeyError'', ''InvalidSignatureError'',
      ''InvalidTokenError'', ''MissingRequiredClaimError'', ''PyJWKClientError'',
      ''PyJWKError'', ''PyJWKSetError'', ''PyJWTError'']"

definition DecodeError :: "string \<Rightarrow> exn" where
  "DecodeError msg = PyExc [''DecodeError'', ''InvalidTokenError'', ''PyJWTError''] msg"

definition pyjwt :: "(string \<Rightarrow> exn + claims) \<Rightarrow> (claims \<Rightarrow> exn + string) \<Rightarrow> jwt_module" where
  "pyjwt dec enc =
     \<lparr>exports = pyjwt_exports,
      decode = (\<lambda>token. if length (filter (\<lambda>ch. ch = CHR ''.'') token) < 2
                         then Inl (DecodeError ''Not enough segments'') else dec token),
      encode = enc\<rparr>"

text \<open>
  \<open>exception_str\<close> is \<^verbatim>\<open>str(e)\<close>: the message of an exception, and for an
  \<^verbatim>\<open>HTTPException\<close> its status code, a colon and its detail.

  passlib over the \<^verbatim>\<open>bcrypt\<close> module, both working: \<open>digest\<close> is the bcrypt digest of at
  most 72 password bytes under a 29-byte salt string, and \<open>salt\<close> the salt that
  \<^verbatim>\<open>gensalt\<close> draws. bcrypt reads the first 72 bytes of a password and rejects a
  \<^verbatim>\<open>NUL\<close> byte; \<^verbatim>\<open>checkpw\<close> hashes the password under the salt that the stored hash
  starts with and compares. passlib encodes the password as UTF-8 and hands it to bcrypt.
\<close>

definition exception_str :: "exn \<Rightarrow> string" where
  "exception_str e =
     (case e of
        HTTPException sc dt \<Rightarrow> map (\<lambda>k. digit (sc div 10 ^ k)) [2, 1, 0] @ '': '' @ dt
      | PyExc cs msg \<Rightarrow> msg)"

definition bcrypt_hashpw :: "(bytes \<Rightarrow> bytes \<Rightarrow> bytes) \<Rightarrow> bytes \<Rightarrow> bytes \<Rightarrow> exn + bytes" where
  "bcrypt_hashpw digest password s =
     (if 0 \<in> set password then Inl (ValueError ''embedded null byte'')
      else if length s < 29 then Inl (ValueError ''Invalid salt'')
      else Inr (take 29 s @ digest (take 72 password) (take 29 s)))"

definition bcrypt_checkpw :: "(bytes \<Rightarrow> bytes \<Rightarrow> bytes) \<Rightarrow> bytes \<Rightarrow> bytes \<Rightarrow> exn + bool" where
  "bcrypt_checkpw digest password hashed =
     (case bcrypt_hashpw digest password hashed of
        Inl e \<Rightarrow> Inl e
      | Inr h \<Rightarrow> Inr (h = hashed))"

definition passlib_bcrypt :: "(bytes \<Rightarrow> bytes \<Rightarrow> bytes) \<Rightarrow> bytes \<Rightarrow> pw_backend" where
  "passlib_bcrypt digest salt =
     \<lparr>use_raw_bcrypt = False,
      pwd_context_hash = (\<lambda>secret.
        case utf8_encode secret of
          None \<Rightarrow> Inl UnicodeEncodeError
        | Some bs \<Rightarrow>
          (case bcrypt_hashpw digest bs salt of
             Inl e \<Rightarrow> Inl e
           | Inr h \<Rightarrow> (case utf8_decode False h of None \<Rightarrow> Inl UnicodeDecodeError | Some hs \<Rightarrow> Inr hs))),
      pwd_context_verify = (\<lambda>secret hashed.
        case utf8_encode secret of
          None \<Rightarrow> Inl UnicodeEncodeError
        | Some bs \<Rightarrow>
          (case utf8_encode hashed of
             None \<Rightarrow> Inl UnicodeEncodeError
           | Some hb \<Rightarrow> bcrypt_checkpw digest bs hb)),
      import_bcrypt = None,
      gensalt = (\<lambda>rounds. Inr salt),
      hashpw = bcrypt_hashpw digest,
      checkpw = bcrypt_checkpw digest,
      str_exc = exception_str\<rparr>"

section \<open>Example data\<close>

text \<open>
  A small deployment for the concrete instances below: a digest that keeps the password
  bytes (so that two passwords collide only when bcrypt reads the same 72 bytes of both),
  one account of each kind, a supervisor that shares the admin's e-mail address, and a
  token library that knows one access token, one refresh token and one expired token.
\<close>

definition ex_digest :: "bytes \<Rightarrow> bytes \<Rightarrow> bytes" where
  "ex_digest password s = password"

definition ex_salt :: bytes where
  "ex_salt = replicate 29 36"

definition ex_backend :: pw_backend where
  "ex_backend = passlib_bcrypt ex_digest ex_salt"

definition ex_password :: pystr where
  "ex_password = [84, 101, 115, 116, 64, 49, 50, 51]"

definition ex_hash :: pystr where
  "ex_hash = ex_salt @ ex_password"

definition ex_admin :: account where
  "ex_admin = \<lparr>oid = 1, email = Some ''admin@lh.io.in'', phone = None, name = Some ''Admin'',
               role = Some ''ADMIN'', passwordHash = Some ex_hash, isActive = Some True,
               lastLogin = None, updatedAt = None, areaCity = None\<rparr>"

definition ex_super_admin :: account where
  "ex_super_admin = ex_admin\<lparr>oid := 4, email := Some ''root@lh.io.in'', name := Some ''Root'',
                              role := Some ''SUPER_ADMIN''\<rparr>"

definition ex_supervisor :: account where
  "ex_supervisor = \<lparr>oid = 2, email = Some ''sup@lh.io.in'', phone = Some ''9000000002'',
                    name = Some ''Sup'', role = None, passwordHash = Some ex_hash,
                    isActive = Some True, lastLogin = None, updatedAt = None,
                    areaCity = Some ''Pune''\<rparr>"

definition ex_shadow_supervisor :: account where
  "ex_shadow_supervisor = ex_supervisor\<lparr>oid := 5, email := Some ''admin@lh.io.in''\<rparr>"

definition ex_guard :: account where
  "ex_guard = \<lparr>oid = 3, email = None, phone = Some ''9000000003'', name = Some ''Guard'',
               role = None, passwordHash = Some ex_hash, isActive = Some False,
               lastLogin = None, updatedAt = None, areaCity = None\<rparr>"

definition ex_db :: db where
  "ex_db = \<lparr>users = Some [ex_super_admin, ex_admin],
            supervisors = Some [ex_supervisor, ex_shadow_supervisor],
            guards = Some [ex_guard], otp_tokens = Some []\<rparr>"

definition ex_object_id :: "string \<Rightarrow> nat option" where
  "ex_object_id s = (if s = ''2'' then Some 2 else if s = ''4'' then Some 4 else None)"

definition ex_str_object_id :: "nat \<Rightarrow> string" where
  "ex_str_object_id i = (if i = 2 then ''2'' else if i = 4 then ''4'' else ''0'')"

definition ex_jwt :: jwt_module where
  "ex_jwt = pyjwt
     (\<lambda>token.
        if token = ''h.supervisor.s''
        then Inr [''user_id'' \<mapsto> JStr ''2'', ''role'' \<mapsto> JStr ''SUPERVISOR'',
                  ''type'' \<mapsto> JStr ''access'']
        else if token = ''h.refresh.s''
        then Inr [''user_id'' \<mapsto> JStr ''2'', ''type'' \<mapsto> JStr ''refresh'']
        else if token = ''h.expired.s''
        then Inl (PyExc [''ExpiredSignatureError'', ''InvalidTokenError'', ''PyJWTError'']
                    ''Signature has expired'')
        else Inl (PyExc [''InvalidSignatureError'', ''DecodeError'', ''InvalidTokenError'',
                         ''PyJWTError''] ''Signature verification failed''))
     (\<lambda>payload. Inr ''h.issued.s'')"

definition ex_db_deactivated :: db where
  "ex_db_deactivated =
     ex_db\<lparr>supervisors := Some [ex_supervisor\<lparr>isActive := Some False\<rparr>, ex_shadow_supervisor]\<rparr>"

definition ex_settings :: settings where
  "ex_settings = default_settings\<lparr>OTP_RATE_LIMIT_MINUTES := 5\<rparr>"

definition ex_sha :: "string \<Rightarrow> string" where
  "ex_sha s = ''sha256:'' @ s"

definition ex_services :: otp_services where
  "ex_services = \<lparr>sha256_hexdigest = ex_sha, randbelow = 4821, fresh_id = 7,
                  send_otp_email = (\<lambda>to_email otp purpose. True)\<rparr>"

definition ex_services_unsent :: otp_services where
  "ex_services_unsent = ex_services\<lparr>send_otp_email := (\<lambda>to_email otp purpose. False)\<rparr>"

definition ex_pending_otp :: otp_doc where
  "ex_pending_otp = \<lparr>otp_id = 6, otp_email = ''root@lh.io.in'', otpHash = ex_sha ''123456'',
                     purpose = ''PASSWORD_CHANGE'', expiresAt = 1480, attempts = 0,
                     createdAt = 880\<rparr>"

definition ex_db_pending :: db where
  "ex_db_pending = ex_db\<lparr>otp_tokens := Some [ex_pending_otp]\<rparr>"

definition ex_long_password :: pystr where
  "ex_long_password = replicate 71 97 @ [233]"

section \<open>Properties of token validation and the role checks\<close>

lemma get_current_user_role:
  "get_current_user m oi d tok = Inr u \<Longrightarrow>
     role u \<in> {Some ''ADMIN'', Some ''SUPER_ADMIN'', Some ''SUPERVISOR'', Some ''GUARD''}"
  by (auto simp: get_current_user_def role_collection_def
           split: option.splits if_splits sum.splits jval.splits)

lemma find_one_holds: "find_one P coll = Some x \<Longrightarrow> P x"
  by (auto simp: find_one_def find_Some_iff)

lemma get_current_user_InrD:
  assumes "get_current_user m oi d tok = Inr u"
  shows "\<exists>t payload r i coll user.
           tok = Some t \<and> t \<noteq> [] \<and> verify_token m t ''access'' = Inr (Some payload)
           \<and> payload \<noteq> Map.empty \<and> truthy (payload ''user_id'') \<and> truthy (payload ''role'')
           \<and> payload ''role'' = Some (JStr r)
           \<and> role_collection d (Some (JStr r)) = Inr (Some coll)
           \<and> to_object_id oi (payload ''user_id'') = Some i
           \<and> find_one (\<lambda>a. oid a = i) coll = Some user
           \<and> isActive user = Some True \<and> u = user\<lparr>role := Some r\<rparr>"
  using assms
  by (auto simp: get_current_user_def split: option.splits if_splits sum.splits jval.splits)

lemma ex_supervisor_call:
  "get_current_user ex_jwt ex_object_id ex_db (Some ''h.supervisor.s'')
     = Inr (ex_supervisor\<lparr>role := Some ''SUPERVISOR''\<rparr>)"
  by (simp add: get_current_user_def verify_token_def ex_jwt_def pyjwt_def ex_db_def
        ex_object_id_def to_object_id_def role_collection_def find_one_def ex_supervisor_def)

lemma verify_token_expired_none:
  "''ExpiredSignatureError'' \<in> set (exports m) \<Longrightarrow> decode m t = Inl e \<Longrightarrow>
   isinstance e ''ExpiredSignatureError'' \<Longrightarrow> verify_token m t ty = Inr None"
  by (simp add: verify_token_def except_clause_def)

lemma verify_token_wrong_type_none:
  "decode m t = Inr payload \<Longrightarrow> payload ''type'' \<noteq> Some (JStr ty) \<Longrightarrow>
   verify_token m t ty = Inr None"
  by (simp add: verify_token_def)

text \<open>
  Claim C1. Token validation is to return \<open>None\<close>, and never raise, on a bad signature, an
  expired token and a payload of the other type. An expired token and a payload of the
  other type do give \<open>None\<close> (the two lemmas above). For any other failure of
  \<^verbatim>\<open>jwt.decode\<close> the second handler names \<^verbatim>\<open>jwt.JWTError\<close>: when the module binds no such
  name, looking it up raises \<^verbatim>\<open>AttributeError\<close>, which leaves \<open>verify_token\<close>.
\<close>

theorem verify_token_invalid_signature_raises:
  "''ExpiredSignatureError'' \<in> set (exports m) \<and> ''JWTError'' \<notin> set (exports m)
   \<and> decode m t = Inl e \<and> \<not> isinstance e ''ExpiredSignatureError''
   \<longrightarrow> verify_token m t ty
         = Inl (PyExc [''AttributeError''] ''module jwt has no attribute JWTError'')"
  by (simp add: verify_token_def except_clause_def)

theorem verify_token_invalid_signature_raises_witness:
  "verify_token ex_jwt ''not-a-token'' ''access''
     = Inl (PyExc [''AttributeError''] ''module jwt has no attribute JWTError'')
   \<and> verify_token ex_jwt ''h.forged.s'' ''access''
     = Inl (PyExc [''AttributeError''] ''module jwt has no attribute JWTError'')
   \<and> verify_token ex_jwt ''h.expired.s'' ''access'' = Inr None
   \<and> verify_token ex_jwt ''h.refresh.s'' ''access'' = Inr None"
proof -
  have x: "''ExpiredSignatureError'' \<in> set (exports ex_jwt) \<and> ''JWTError'' \<notin> set (exports ex_jwt)"
    by (simp add: ex_jwt_def pyjwt_def pyjwt_exports_def)
  have d1: "decode ex_jwt ''not-a-token'' = Inl (DecodeError ''Not enough segments'')"
    by (simp add: ex_jwt_def pyjwt_def)
  have d2: "decode ex_jwt ''h.forged.s''
              = Inl (PyExc [''InvalidSignatureError'', ''DecodeError'', ''InvalidTokenError'',
                            ''PyJWTError''] ''Signature verification failed'')"
    by (simp add: ex_jwt_def pyjwt_def)
  have i1: "\<not> isinstance (DecodeError ''Not enough segments'') ''ExpiredSignatureError''"
    by (simp add: DecodeError_def)
  have e3: "verify_token ex_jwt ''h.expired.s'' ''access'' = Inr None"
    by (simp add: verify_token_def except_clause_def ex_jwt_def pyjwt_def pyjwt_exports_def)
  have e4: "verify_token ex_jwt ''h.refresh.s'' ''access'' = Inr None"
    by (simp add: verify_token_def ex_jwt_def pyjwt_def)
  from verify_token_invalid_signature_raises [of ex_jwt "''not-a-token''"
         "DecodeError ''Not enough segments''" "''access''"]
       verify_token_invalid_signature_raises [of ex_jwt "''h.forged.s''"
         "PyExc [''InvalidSignatureError'', ''DecodeError'', ''InvalidTokenError'',
                 ''PyJWTError''] ''Signature verification failed''" "''access''"]
       x d1 d2 i1 e3 e4
  show ?thesis by simp
qed

text \<open>
  Claim C5. Every role check passes exactly when the caller's role is one of the roles it
  allows, returning the caller, and raises 403 otherwise: \<open>require_roles\<close> for any list
  of roles and each fixed dependency for its own roles. There is no hierarchy: a
  SUPER_ADMIN does not pass an ADMIN-only check. A request whose token resolves to a
  caller passes a route exactly when the caller's role is allowed there; one that
  resolves to a SUPERVISOR gets 403 from a route that requires ADMIN.
\<close>

theorem require_roles_iff_member:
  "(require_roles allowed u =
      (if \<exists>r \<in> set allowed. role u = Some (role_value r) then Inr u
       else Inl (HTTPException 403
              (''Access denied. Required roles: '' @ join '', '' (map role_value allowed)))))
   \<and> get_current_admin u =
       (if role u = Some ''ADMIN'' then Inr u
        else Inl (HTTPException 403 ''Admin access required''))
   \<and> get_current_super_admin u =
       (if role u = Some ''SUPER_ADMIN'' then Inr u
        else Inl (HTTPException 403 ''Super admin access required''))
   \<and> get_current_supervisor u =
       (if role u = Some ''SUPERVISOR'' then Inr u
        else Inl (HTTPException 403 ''Supervisor access required''))
   \<and> get_current_guard u =
       (if role u = Some ''GUARD'' then Inr u
        else Inl (HTTPException 403 ''Guard access required''))
   \<and> get_super_admin_or_admin u =
       (if role u = Some ''SUPER_ADMIN'' \<or> role u = Some ''ADMIN'' then Inr u
        else Inl (HTTPException 403 ''Super Admin or Admin access required''))
   \<and> get_admin_or_supervisor u =
       (if role u = Some ''ADMIN'' \<or> role u = Some ''SUPERVISOR'' then Inr u
        else Inl (HTTPException 403 ''Admin or Supervisor access required''))
   \<and> get_current_admin (u\<lparr>role := Some (role_value SUPER_ADMIN)\<rparr>)
       = Inl (HTTPException 403 ''Admin access required'')
   \<and> require_roles [ADMIN] (u\<lparr>role := Some (role_value SUPER_ADMIN)\<rparr>)
       = Inl (HTTPException 403 ''Access denied. Required roles: ADMIN'')
   \<and> (get_current_user m oi d tok = Inr v \<longrightarrow>
        protected_call m oi d allowed tok =
          (if \<exists>r \<in> set allowed. role v = Some (role_value r) then Inr v
           else Inl (HTTPException 403
                  (''Access denied. Required roles: '' @ join '', '' (map role_value allowed))))
        \<and> depends_on_current_user get_current_admin m oi d tok =
          (if role v = Some ''ADMIN'' then Inr v
           else Inl (HTTPException 403 ''Admin access required'')))
   \<and> (get_current_user m oi d tok = Inr v \<and> role v = Some (role_value SUPERVISOR)
        \<longrightarrow> protected_call m oi d [ADMIN] tok
              = Inl (HTTPException 403 ''Access denied. Required roles: ADMIN''))"
proof -
  have rr: "require_roles allowed' w =
      (if \<exists>r \<in> set allowed'. role w = Some (role_value r) then Inr w
       else Inl (HTTPException 403
              (''Access denied. Required roles: '' @ join '', '' (map role_value allowed'))))"
    for allowed' w
    by (auto simp: require_roles_def AuthorizationError_def split: option.splits)
  have ad: "get_current_admin w =
       (if role w = Some ''ADMIN'' then Inr w
        else Inl (HTTPException 403 ''Admin access required''))" for w
    by (simp add: get_current_admin_def AuthorizationError_def)
  have sa: "get_current_super_admin u =
       (if role u = Some ''SUPER_ADMIN'' then Inr u
        else Inl (HTTPException 403 ''Super admin access required''))"
    by (simp add: get_current_super_admin_def AuthorizationError_def)
  have sv: "get_current_supervisor u =
       (if role u = Some ''SUPERVISOR'' then Inr u
        else Inl (HTTPException 403 ''Supervisor access required''))"
    by (simp add: get_current_supervisor_def AuthorizationError_def)
  have gd: "get_current_guard u =
       (if role u = Some ''GUARD'' then Inr u
        else Inl (HTTPException 403 ''Guard access required''))"
    by (simp add: get_current_guard_def AuthorizationError_def)
  have s2: "get_super_admin_or_admin u =
       (if role u = Some ''SUPER_ADMIN'' \<or> role u = Some ''ADMIN'' then Inr u
        else Inl (HTTPException 403 ''Super Admin or Admin access required''))"
    by (simp add: get_super_admin_or_admin_def AuthorizationError_def)
  have a2: "get_admin_or_supervisor u =
       (if role u = Some ''ADMIN'' \<or> role u = Some ''SUPERVISOR'' then Inr u
        else Inl (HTTPException 403 ''Admin or Supervisor access required''))"
    by (simp add: get_admin_or_supervisor_def AuthorizationError_def)
  have o1: "get_current_admin (u\<lparr>role := Some (role_value SUPER_ADMIN)\<rparr>)
       = Inl (HTTPException 403 ''Admin access required'')"
    by (simp add: ad)
  have o2: "require_roles [ADMIN] (u\<lparr>role := Some (role_value SUPER_ADMIN)\<rparr>)
       = Inl (HTTPException 403 ''Access denied. Required roles: ADMIN'')"
    by (simp add: rr)
  have p: "get_current_user m oi d tok = Inr v \<longrightarrow>
        protected_call m oi d allowed tok =
          (if \<exists>r \<in> set allowed. role v = Some (role_value r) then Inr v
           else Inl (HTTPException 403
                  (''Access denied. Required roles: '' @ join '', '' (map role_value allowed))))
        \<and> depends_on_current_user get_current_admin m oi d tok =
          (if role v = Some ''ADMIN'' then Inr v
           else Inl (HTTPException 403 ''Admin access required''))"
    by (simp add: protected_call_def depends_on_current_user_def rr ad)
  have o3: "get_current_user m oi d tok = Inr v \<and> role v = Some (role_value SUPERVISOR)
        \<longrightarrow> protected_call m oi d [ADMIN] tok
              = Inl (HTTPException 403 ''Access denied. Required roles: ADMIN'')"
    by (simp add: protected_call_def rr)
  from rr [of allowed u] ad [of u] sa sv gd s2 a2 o1 o2 p o3 show ?thesis
    by (intro conjI)
qed

theorem require_roles_iff_member_witness:
  "get_current_user ex_jwt ex_object_id ex_db (Some ''h.supervisor.s'')
     = Inr (ex_supervisor\<lparr>role := Some ''SUPERVISOR''\<rparr>)
   \<and> protected_call ex_jwt ex_object_id ex_db [ADMIN] (Some ''h.supervisor.s'')
     = Inl (HTTPException 403 ''Access denied. Required roles: ADMIN'')
   \<and> protected_call ex_jwt ex_object_id ex_db [ADMIN, SUPERVISOR] (Some ''h.supervisor.s'')
     = Inr (ex_supervisor\<lparr>role := Some ''SUPERVISOR''\<rparr>)
   \<and> depends_on_current_user get_current_admin ex_jwt ex_object_id ex_db
        (Some ''h.supervisor.s'')
     = Inl (HTTPException 403 ''Admin access required'')
   \<and> require_roles [ADMIN, SUPERVISOR] (ex_supervisor\<lparr>role := Some ''SUPERVISOR''\<rparr>)
     = Inr (ex_supervisor\<lparr>role := Some ''SUPERVISOR''\<rparr>)
   \<and> get_current_admin ex_admin = Inr ex_admin
   \<and> get_current_admin ex_super_admin = Inl (HTTPException 403 ''Admin access required'')
   \<and> get_current_supervisor (ex_supervisor\<lparr>role := Some ''SUPERVISOR''\<rparr>)
     = Inr (ex_supervisor\<lparr>role := Some ''SUPERVISOR''\<rparr>)"
proof -
  have h: "get_current_user ex_jwt ex_object_id ex_db (Some ''h.supervisor.s'')
     = Inr (ex_supervisor\<lparr>role := Some ''SUPERVISOR''\<rparr>)"
    by (rule ex_supervisor_call)
  have r: "role (ex_supervisor\<lparr>role := Some ''SUPERVISOR''\<rparr>) = Some ''SUPERVISOR''"
    and ra: "role ex_admin = Some ''ADMIN''"
    and rs: "role ex_super_admin = Some ''SUPER_ADMIN''"
    by (simp_all add: ex_admin_def ex_super_admin_def)
  note T = require_roles_iff_member [where m = ex_jwt and oi = ex_object_id and d = ex_db
      and tok = "Some ''h.supervisor.s''" and v = "ex_supervisor\<lparr>role := Some ''SUPERVISOR''\<rparr>"]
  have 1: "protected_call ex_jwt ex_object_id ex_db [ADMIN] (Some ''h.supervisor.s'')
     = Inl (HTTPException 403 ''Access denied. Required roles: ADMIN'')"
    using T [where allowed = "[ADMIN]"] h r by simp
  have 2: "protected_call ex_jwt ex_object_id ex_db [ADMIN, SUPERVISOR] (Some ''h.supervisor.s'')
     = Inr (ex_supervisor\<lparr>role := Some ''SUPERVISOR''\<rparr>)"
    using T [where allowed = "[ADMIN, SUPERVISOR]"] h r by simp
  have 3: "depends_on_current_user get_current_admin ex_jwt ex_object_id ex_db
        (Some ''h.supervisor.s'')
     = Inl (HTTPException 403 ''Admin access required'')"
    using T [where allowed = "[ADMIN]"] h r by simp
  have 4: "require_roles [ADMIN, SUPERVISOR] (ex_supervisor\<lparr>role := Some ''SUPERVISOR''\<rparr>)
     = Inr (ex_supervisor\<lparr>role := Some ''SUPERVISOR''\<rparr>)"
    using T [where allowed = "[ADMIN, SUPERVISOR]"
               and u = "ex_supervisor\<lparr>role := Some ''SUPERVISOR''\<rparr>"] r by simp
  have 5: "get_current_admin ex_admin = Inr ex_admin"
    using T [where u = ex_admin] ra by simp
  have 6: "get_current_admin ex_super_admin = Inl (HTTPException 403 ''Admin access required'')"
    using T [where u = ex_super_admin] rs by simp
  have 7: "get_current_supervisor (ex_supervisor\<lparr>role := Some ''SUPERVISOR''\<rparr>)
     = Inr (ex_supervisor\<lparr>role := Some ''SUPERVISOR''\<rparr>)"
    using T [where u = "ex_supervisor\<lparr>role := Some ''SUPERVISOR''\<rparr>"] r by simp
  from h 1 2 3 4 5 6 7 show ?thesis by (intro conjI)
qed

text \<open>
  Claim C6. Every protected call reads the caller's account from the database and checks
  its \<open>isActive\<close> flag at that moment: a call succeeds only for an active account, and
  once the account's document is no longer active the same token is answered with 401.
\<close>

theorem deactivation_rejects_next_call:
  "(get_current_user m oi d (Some t) = Inr u \<longrightarrow> isActive u = Some True)
   \<and> (get_current_user m oi d (Some t) = Inr u
        \<and> role_collection d' (map_option JStr (role u)) = Inr (Some coll')
        \<and> find_one (\<lambda>a. oid a = oid u) coll' = Some u'
        \<and> isActive u' \<noteq> Some True
       \<longrightarrow> get_current_user m oi d' (Some t)
             = Inl (HTTPException 401 ''Account is not active''))"
proof (intro conjI impI)
  assume "get_current_user m oi d (Some t) = Inr u"
  then show "isActive u = Some True"
    by (auto dest!: get_current_user_InrD)
next
  assume A: "get_current_user m oi d (Some t) = Inr u
        \<and> role_collection d' (map_option JStr (role u)) = Inr (Some coll')
        \<and> find_one (\<lambda>a. oid a = oid u) coll' = Some u'
        \<and> isActive u' \<noteq> Some True"
  then obtain payload r i coll user where
    t: "t \<noteq> []" and vt: "verify_token m t ''access'' = Inr (Some payload)"
    and ne: "payload \<noteq> Map.empty"
    and tr: "truthy (payload ''user_id'')" "truthy (payload ''role'')"
    and pr: "payload ''role'' = Some (JStr r)"
    and oi: "to_object_id oi (payload ''user_id'') = Some i"
    and f: "find_one (\<lambda>a. oid a = i) coll = Some user"
    and u: "u = user\<lparr>role := Some r\<rparr>"
    by (auto dest!: get_current_user_InrD)
  from f have "oid user = i" by (rule find_one_holds)
  with u have iu: "oid u = i" by simp
  from u have ru: "role u = Some r" by simp
  from A ru have rc: "role_collection d' (Some (JStr r)) = Inr (Some coll')" by simp
  from A iu have f': "find_one (\<lambda>a. oid a = i) coll' = Some u'" by simp
  from A have na: "isActive u' \<noteq> Some True" by simp
  show "get_current_user m oi d' (Some t) = Inl (HTTPException 401 ''Account is not active'')"
    using t vt ne tr pr oi rc f' na
    by (simp add: get_current_user_def AuthenticationError_def)
qed

theorem deactivation_rejects_next_call_witness:
  "get_current_user ex_jwt ex_object_id ex_db (Some ''h.supervisor.s'')
     = Inr (ex_supervisor\<lparr>role := Some ''SUPERVISOR''\<rparr>)
   \<and> get_current_user ex_jwt ex_object_id ex_db_deactivated (Some ''h.supervisor.s'')
     = Inl (HTTPException 401 ''Account is not active'')"
proof -
  have h: "get_current_user ex_jwt ex_object_id ex_db (Some ''h.supervisor.s'')
     = Inr (ex_supervisor\<lparr>role := Some ''SUPERVISOR''\<rparr>)"
    by (rule ex_supervisor_call)
  have c: "role_collection ex_db_deactivated
             (map_option JStr (role (ex_supervisor\<lparr>role := Some ''SUPERVISOR''\<rparr>)))
           = Inr (Some [ex_supervisor\<lparr>isActive := Some False\<rparr>, ex_shadow_supervisor])"
    by (simp add: role_collection_def ex_db_deactivated_def)
  have f: "find_one (\<lambda>a. oid a = oid (ex_supervisor\<lparr>role := Some ''SUPERVISOR''\<rparr>))
             [ex_supervisor\<lparr>isActive := Some False\<rparr>, ex_shadow_supervisor]
           = Some (ex_supervisor\<lparr>isActive := Some False\<rparr>)"
    by (simp add: find_one_def)
  have n: "isActive (ex_supervisor\<lparr>isActive := Some False\<rparr>) \<noteq> Some True"
    by simp
  from deactivation_rejects_next_call [of ex_jwt ex_object_id ex_db "''h.supervisor.s''"
         "ex_supervisor\<lparr>role := Some ''SUPERVISOR''\<rparr>" ex_db_deactivated
         "[ex_supervisor\<lparr>isActive := Some False\<rparr>, ex_shadow_supervisor]"
         "ex_supervisor\<lparr>isActive := Some False\<rparr>"] h c f n
  show ?thesis by simp
qed

section \<open>Properties of password hashing\<close>

lemma verify_password_total: "\<exists>b. verify_password B p h = Inr b"
  by (auto simp: verify_password_def verify_with_raw_bcrypt_def split: sum.splits)

text \<open>
  Claim C8. Whatever the password, the stored hash and the behaviour of the two backends,
  \<open>verify_password\<close> returns a boolean and raises nothing; when the passlib strategy is
  skipped or raises and the raw bcrypt strategy raises too, the result is \<open>False\<close>.
\<close>

theorem verify_password_never_raises:
  "(\<exists>b. verify_password B p h = Inr b)
   \<and> ((use_raw_bcrypt B \<or> (\<exists>e. pwd_context_verify B p h = Inl e))
        \<and> (\<exists>e. verify_with_raw_bcrypt_try B p h = Inl e)
       \<longrightarrow> verify_password B p h = Inr False)"
  by (auto simp: verify_password_def verify_with_raw_bcrypt_def split: sum.splits)

theorem verify_password_never_raises_witness:
  "(\<exists>e. pwd_context_verify ex_backend ex_password [110, 111, 112, 101] = Inl e)
   \<and> (\<exists>e. verify_with_raw_bcrypt_try ex_backend ex_password [110, 111, 112, 101] = Inl e)
   \<and> verify_password ex_backend ex_password [110, 111, 112, 101] = Inr False"
proof -
  have h1: "\<exists>e. pwd_context_verify ex_backend ex_password [110, 111, 112, 101] = Inl e"
    by (simp add: ex_backend_def passlib_bcrypt_def ex_password_def utf8_encode_char_def
          bcrypt_checkpw_def bcrypt_hashpw_def)
  have h2: "\<exists>e. verify_with_raw_bcrypt_try ex_backend ex_password [110, 111, 112, 101] = Inl e"
    by (simp add: verify_with_raw_bcrypt_try_def ex_backend_def passlib_bcrypt_def
          ex_password_def utf8_encode_char_def bcrypt_checkpw_def bcrypt_hashpw_def)
  from verify_password_never_raises [of ex_backend ex_password "[110, 111, 112, 101]"] h1 h2
  show ?thesis by blast
qed

lemma ex_verify_ok: "verify_password ex_backend ex_password ex_hash = Inr True"
  by code_simp

lemma ex_verify_bad: "verify_password ex_backend [119, 114, 111, 110, 103] ex_hash = Inr False"
  by code_simp

lemma ex_encode_ok: "utf8_encode ex_password \<noteq> None"
  by code_simp

text \<open>
  A byte string that decodes strictly encodes back to itself, so the hash string that
  \<^verbatim>\<open>_hash_with_raw_bcrypt\<close> returns gives \<^verbatim>\<open>_verify_with_raw_bcrypt\<close> the bytes that
  bcrypt produced.
\<close>

lemma digit_div: fixes q r b :: nat shows "r < b \<Longrightarrow> (q * b + r) div b = q"
  by simp

lemma digit_mod: fixes q r b :: nat shows "r < b \<Longrightarrow> (q * b + r) mod b = r"
  by simp

lemma enc3:
  fixes b0 b1 b2 :: nat
  assumes "0xE0 \<le> b0" "b0 \<le> 0xEF" "b1_lo b0 \<le> b1" "b1 \<le> b1_hi b0" "cont b2"
  shows "utf8_encode_char ((b0 - 0xE0) * 4096 + (b1 - 0x80) * 64 + (b2 - 0x80)) = Some [b0, b1, b2]"
proof -
  define k where "k = b0 - 0xE0"
  define j where "j = b1 - 0x80"
  define l where "l = b2 - 0x80"
  have k: "b0 = 0xE0 + k" "k < 16" using assms by (simp_all add: k_def)
  have j: "b1 = 0x80 + j" "j < 64"
    using assms by (auto simp: j_def b1_lo_def b1_hi_def split: if_splits)
  have l: "b2 = 0x80 + l" "l < 64" using assms by (auto simp: l_def cont_def)
  have lo: "k = 0 \<Longrightarrow> 32 \<le> j" and hi: "k = 13 \<Longrightarrow> j < 32"
    using assms by (auto simp: j_def k_def b1_lo_def b1_hi_def split: if_splits)
  define c where "c = k * 4096 + j * 64 + l"
  have e: "c = (k * 64 + j) * 64 + l" by (simp add: c_def)
  have d3: "c mod 64 = l" unfolding e using l(2) by (rule digit_mod)
  have q: "c div 64 = k * 64 + j" unfolding e using l(2) by (rule digit_div)
  have d2: "c div 64 mod 64 = j" unfolding q using j(2) by (rule digit_mod)
  have "c div 64 div 64 = k" unfolding q using j(2) by (rule digit_div)
  then have d1: "c div 4096 = k" by (simp add: div_mult2_eq [symmetric])
  have r1: "0x800 \<le> c" using lo j(2) l(2) by (cases "k = 0") (simp_all add: c_def)
  have r2: "c < 0x10000" using k(2) j(2) l(2) by (simp add: c_def)
  have r3: "\<not> (0xD800 \<le> c \<and> c \<le> 0xDFFF)"
  proof (cases "k = 13")
    case True
    with hi j(2) l(2) show ?thesis by (simp add: c_def)
  next
    case False
    then have "k \<le> 12 \<or> 14 \<le> k" by arith
    with j(2) l(2) show ?thesis by (auto simp: c_def)
  qed
  have "utf8_encode_char c = Some [0xE0 + k, 0x80 + j, 0x80 + l]"
    using d1 d2 d3 r1 r2 r3 by (simp add: utf8_encode_char_def)
  then show ?thesis
    unfolding k(1) j(1) l(1) c_def by simp
qed

lemma enc4:
  fixes b0 b1 b2 b3 :: nat
  assumes "0xF0 \<le> b0" "b0 \<le> 0xF4" "b1_lo b0 \<le> b1" "b1 \<le> b1_hi b0" "cont b2" "cont b3"
  shows "utf8_encode_char ((b0 - 0xF0) * 262144 + (b1 - 0x80) * 4096 + (b2 - 0x80) * 64
                           + (b3 - 0x80)) = Some [b0, b1, b2, b3]"
proof -
  define k where "k = b0 - 0xF0"
  define j where "j = b1 - 0x80"
  define l where "l = b2 - 0x80"
  define m where "m = b3 - 0x80"
  have k: "b0 = 0xF0 + k" "k < 5" using assms by (simp_all add: k_def)
  have j: "b1 = 0x80 + j" "j < 64"
    using assms by (auto simp: j_def b1_lo_def b1_hi_def split: if_splits)
  have l: "b2 = 0x80 + l" "l < 64" using assms by (auto simp: l_def cont_def)
  have m: "b3 = 0x80 + m" "m < 64" using assms by (auto simp: m_def cont_def)
  have lo: "k = 0 \<Longrightarrow> 16 \<le> j" and hi: "k = 4 \<Longrightarrow> j < 16"
    using assms by (auto simp: j_def k_def b1_lo_def b1_hi_def split: if_splits)
  define c where "c = k * 262144 + j * 4096 + l * 64 + m"
  have e: "c = ((k * 64 + j) * 64 + l) * 64 + m" by (simp add: c_def)
  have d4: "c mod 64 = m" unfolding e using m(2) by (rule digit_mod)
  have q: "c div 64 = (k * 64 + j) * 64 + l" unfolding e using m(2) by (rule digit_div)
  have d3: "c div 64 mod 64 = l" unfolding q using l(2) by (rule digit_mod)
  have q2: "c div 64 div 64 = k * 64 + j" unfolding q using l(2) by (rule digit_div)
  have "c div 64 div 64 mod 64 = j" unfolding q2 using j(2) by (rule digit_mod)
  then have d2: "c div 4096 mod 64 = j" by (simp add: div_mult2_eq [symmetric])
  have "c div 64 div 64 div 64 = k" unfolding q2 using j(2) by (rule digit_div)
  then have d1: "c div 262144 = k" by (simp add: div_mult2_eq [symmetric])
  have r1: "0x10000 \<le> c" using lo j(2) l(2) m(2) by (cases "k = 0") (simp_all add: c_def)
  have r2: "c < 0x110000"
  proof (cases "k = 4")
    case True
    with hi l(2) m(2) show ?thesis by (simp add: c_def)
  next
    case False
    with k(2) have "k \<le> 3" by simp
    with j(2) l(2) m(2) show ?thesis by (simp add: c_def)
  qed
  have "utf8_encode_char c = Some [0xF0 + k, 0x80 + j, 0x80 + l, 0x80 + m]"
    using d1 d2 d3 d4 r1 r2 by (simp add: utf8_encode_char_def)
  then show ?thesis
    unfolding k(1) j(1) l(1) m(1) c_def by simp
qed

lemma enc2:
  fixes b0 b1 :: nat
  assumes "0xC2 \<le> b0" "b0 \<le> 0xDF" "0x80 \<le> b1" "b1 \<le> 0xBF"
  shows "utf8_encode_char ((b0 - 0xC0) * 64 + (b1 - 0x80)) = Some [b0, b1]"
proof -
  define k where "k = b0 - 0xC0"
  define j where "j = b1 - 0x80"
  have k: "b0 = 0xC0 + k" "2 \<le> k" "k < 32" using assms by (simp_all add: k_def)
  have j: "b1 = 0x80 + j" "j < 64" using assms by (simp_all add: j_def)
  show ?thesis
    using k(2,3) j(2) unfolding k(1) j(1) by (simp add: utf8_encode_char_def)
qed

lemma enc1: "b0 < 0x80 \<Longrightarrow> utf8_encode_char b0 = Some [b0]"
  by (simp add: utf8_encode_char_def)

lemma utf8_head_encode:
  assumes "utf8_head bs = Some (c, n)"
  shows "utf8_encode_char c = Some (take n bs)"
proof (cases bs)
  case Nil
  with assms show ?thesis by simp
next
  case (Cons b0 r)
  consider "b0 < 0x80" | "0xC2 \<le> b0 \<and> b0 \<le> 0xDF" | "0xE0 \<le> b0 \<and> b0 \<le> 0xEF"
    | "0xF0 \<le> b0 \<and> b0 \<le> 0xF4"
    using assms Cons by (auto split: if_splits)
  then show ?thesis
  proof cases
    case 1
    with assms Cons show ?thesis by (auto simp: enc1)
  next
    case 2
    with assms Cons obtain b1 r' where r: "r = b1 # r'" and b: "cont b1"
      and c: "c = (b0 - 0xC0) * 64 + (b1 - 0x80)" and n: "n = 2"
      by (auto split: list.splits if_splits)
    from b have "0x80 \<le> b1" "b1 \<le> 0xBF" by (simp_all add: cont_def)
    with 2 have "utf8_encode_char ((b0 - 0xC0) * 64 + (b1 - 0x80)) = Some [b0, b1]"
      by (intro enc2) simp_all
    then have "utf8_encode_char c = Some [b0, b1]" by (simp only: c)
    with Cons r n show ?thesis by simp
  next
    case 3
    with assms Cons obtain b1 b2 r' where r: "r = b1 # b2 # r'"
      and b: "b1_lo b0 \<le> b1" "b1 \<le> b1_hi b0" "cont b2"
      and c: "c = (b0 - 0xE0) * 4096 + (b1 - 0x80) * 64 + (b2 - 0x80)" and n: "n = 3"
      by (auto split: list.splits if_splits)
    from 3 b have "utf8_encode_char ((b0 - 0xE0) * 4096 + (b1 - 0x80) * 64 + (b2 - 0x80))
                   = Some [b0, b1, b2]"
      by (intro enc3) simp_all
    then have "utf8_encode_char c = Some [b0, b1, b2]" by (simp only: c)
    with Cons r n show ?thesis by simp
  next
    case 4
    with assms Cons obtain b1 b2 b3 r' where r: "r = b1 # b2 # b3 # r'"
      and b: "b1_lo b0 \<le> b1" "b1 \<le> b1_hi b0" "cont b2" "cont b3"
      and c: "c = (b0 - 0xF0) * 262144 + (b1 - 0x80) * 4096 + (b2 - 0x80) * 64 + (b3 - 0x80)"
      and n: "n = 4"
      by (auto split: list.splits if_splits)
    from 4 b have "utf8_encode_char ((b0 - 0xF0) * 262144 + (b1 - 0x80) * 4096
                     + (b2 - 0x80) * 64 + (b3 - 0x80)) = Some [b0, b1, b2, b3]"
      by (intro enc4) simp_all
    then have "utf8_encode_char c = Some [b0, b1, b2, b3]" by (simp only: c)
    with Cons r n show ?thesis by simp
  qed
qed

lemma utf8_decode_encode:
  "\<not> ign \<Longrightarrow> utf8_decode ign bs = Some cs \<Longrightarrow> utf8_encode cs = Some bs"
proof (induction ign bs arbitrary: cs rule: utf8_decode.induct)
  case (1 ign)
  then show ?case by simp
next
  case (2 ign b bs)
  from "2.prems" obtain c n where h: "utf8_head (b # bs) = Some (c, n)"
    by (cases "utf8_head (b # bs)") (auto simp del: utf8_head.simps)
  with "2.prems" obtain cs' where d: "utf8_decode ign (drop n (b # bs)) = Some cs'"
    and cs: "cs = c # cs'"
    by (auto simp del: utf8_head.simps)
  from "2.IH"(2) [OF h refl "2.prems"(1) d] have "utf8_encode cs' = Some (drop n (b # bs))" .
  moreover from h have "utf8_encode_char c = Some (take n (b # bs))"
    by (rule utf8_head_encode)
  ultimately have "utf8_encode (c # cs') = Some (take n (b # bs) @ drop n (b # bs))"
    by simp
  with cs show ?case by (simp only: append_take_drop_id)
qed

text \<open>
  With the raw bcrypt strategy both sides cut the password bytes at 72: if bcrypt accepts
  the hashes it produces, a hash verifies the password it was made from.
\<close>

lemma raw_bcrypt_hash_verifies:
  assumes raw: "use_raw_bcrypt B" and h: "hash_password B p = Inr h"
    and ok: "\<forall>pw s hb. hashpw B pw s = Inr hb \<longrightarrow> checkpw B pw hb = Inr True"
  shows "verify_password B p h = Inr True"
proof -
  from raw h have "hash_with_raw_bcrypt_try B p = Inr h"
    by (auto simp: hash_password_def hash_with_raw_bcrypt_def split: sum.splits)
  then obtain bs s hb where i: "import_bcrypt B = None" and e: "utf8_encode p = Some bs"
    and hp: "hashpw B (if length bs > 72 then take 72 bs else bs) s = Inr hb"
    and d: "utf8_decode False hb = Some h"
    by (auto simp: hash_with_raw_bcrypt_try_def split: option.splits sum.splits)
  from d have eh: "utf8_encode h = Some hb" by (rule utf8_decode_encode [rotated]) simp
  from ok hp have "checkpw B (if length bs > 72 then take 72 bs else bs) hb = Inr True"
    by blast
  with i e eh have "verify_with_raw_bcrypt_try B p h = Inr True"
    by (simp add: verify_with_raw_bcrypt_try_def)
  with raw show ?thesis
    by (simp add: verify_password_def verify_with_raw_bcrypt_def)
qed

text \<open>
  Claim C3. Hashing and verifying are to cut a long password to the same 72 bytes, so
  that a hash verifies the password it was made from. With passlib in use,
  \<open>hash_password\<close> cuts the UTF-8 bytes at 72 and decodes them again, dropping a
  character that the cut splits, while \<open>verify_password\<close> hands passlib the whole
  password: whenever passlib tells the two apart, the hash of a password does not verify
  that password. (The raw bcrypt strategy cuts the bytes at 72 on both sides.)
\<close>

theorem hash_truncates_characters_verify_bytes:
  "\<not> use_raw_bcrypt B \<and> utf8_encode p = Some bs \<and> length bs > 72
   \<and> utf8_decode True (take 72 bs) = Some p'
   \<and> pwd_context_hash B p' = Inr h \<and> pwd_context_verify B p h = Inr False
   \<longrightarrow> hash_password B p = Inr h \<and> verify_password B p h = Inr False"
  by (simp add: hash_password_def hash_with_passlib_try_def verify_password_def)

theorem hash_truncates_characters_verify_bytes_witness:
  "utf8_encode ex_long_password = Some (replicate 71 97 @ [195, 169])
   \<and> hash_password ex_backend ex_long_password = Inr (ex_salt @ replicate 71 97)
   \<and> verify_password ex_backend ex_long_password (ex_salt @ replicate 71 97) = Inr False
   \<and> verify_password ex_backend (replicate 71 97) (ex_salt @ replicate 71 97) = Inr True"
proof -
  have u: "\<not> use_raw_bcrypt ex_backend"
    by (simp add: ex_backend_def passlib_bcrypt_def)
  have e: "utf8_encode ex_long_password = Some (replicate 71 97 @ [195, 169])"
    by code_simp
  have l: "length (replicate 71 97 @ [195, 169 :: nat]) > 72"
    by simp
  have t: "utf8_decode True (take 72 (replicate 71 97 @ [195, 169])) = Some (replicate 71 97)"
    by code_simp
  have h: "pwd_context_hash ex_backend (replicate 71 97) = Inr (ex_salt @ replicate 71 97)"
    by code_simp
  have v: "pwd_context_verify ex_backend ex_long_password (ex_salt @ replicate 71 97)
           = Inr False"
    by code_simp
  have g: "verify_password ex_backend (replicate 71 97) (ex_salt @ replicate 71 97) = Inr True"
    by code_simp
  from hash_truncates_characters_verify_bytes [of ex_backend ex_long_password
         "replicate 71 97 @ [195, 169]" "replicate 71 97" "ex_salt @ replicate 71 97"]
       u e l t h v g
  show ?thesis by simp
qed

section \<open>Properties of login\<close>

lemma find_one_first:
  "(\<forall>x\<in>set pre. \<not> P x) \<Longrightarrow> P a \<Longrightarrow> find_one P (pre @ a # post) = Some a"
  by (induction pre) (auto simp: find_one_def)

lemma find_one_none: "(\<forall>x\<in>set xs. \<not> P x) \<Longrightarrow> find_one P xs = None"
  by (simp add: find_one_def find_None_iff)

text \<open>
  Claim C4. Login looks the identifier up in the users collection first, then among the
  supervisors, then among the guards, comparing it with the e-mail and the phone field,
  and takes the first document that matches: a match among the users wins whatever the
  other collections hold, with the role stored in the document (\<^verbatim>\<open>ADMIN\<close> when it
  stores none); a supervisor or guard gets the role of its collection.
\<close>

theorem find_login_user_priority:
  "(\<forall>a pre post.
       uc = pre @ a # post \<and> matches_contact username a
       \<and> (\<forall>x\<in>set pre. \<not> matches_contact username x)
       \<longrightarrow> find_login_user B uc sc gc username
             = Inr (a, case role a of None \<Rightarrow> ''ADMIN'' | Some r \<Rightarrow> r))
   \<and> (\<forall>s pre post.
       (\<forall>x\<in>set uc. \<not> matches_contact username x)
       \<and> sc = pre @ s # post \<and> matches_contact username s
       \<and> (\<forall>x\<in>set pre. \<not> matches_contact username x)
       \<longrightarrow> find_login_user B uc sc gc username = Inr (s, ''SUPERVISOR''))
   \<and> (\<forall>g pre post.
       (\<forall>x\<in>set uc. \<not> matches_contact username x)
       \<and> (\<forall>x\<in>set sc. \<not> matches_contact username x)
       \<and> gc = pre @ g # post \<and> matches_contact username g
       \<and> (\<forall>x\<in>set pre. \<not> matches_contact username x)
       \<longrightarrow> find_login_user B uc sc gc username = Inr (g, ''GUARD''))"
  by (auto simp: find_login_user_def find_one_first find_one_none)

theorem find_login_user_priority_witness:
  "find_login_user ex_backend [ex_super_admin, ex_admin] [ex_shadow_supervisor, ex_supervisor]
      [ex_guard] ''admin@lh.io.in'' = Inr (ex_admin, ''ADMIN'')
   \<and> find_login_user ex_backend [ex_super_admin, ex_admin] [ex_shadow_supervisor, ex_supervisor]
      [ex_guard] ''9000000002'' = Inr (ex_shadow_supervisor, ''SUPERVISOR'')
   \<and> find_login_user ex_backend [ex_super_admin, ex_admin] [ex_shadow_supervisor, ex_supervisor]
      [ex_guard] ''9000000003'' = Inr (ex_guard, ''GUARD'')"
proof -
  have m1: "matches_contact ''admin@lh.io.in'' ex_admin"
    and n1: "\<not> matches_contact ''admin@lh.io.in'' ex_super_admin"
    and r1: "(case role ex_admin of None \<Rightarrow> ''ADMIN'' | Some r \<Rightarrow> r) = ''ADMIN''"
    by (simp_all add: matches_contact_def ex_admin_def ex_super_admin_def)
  have m2: "matches_contact ''9000000002'' ex_shadow_supervisor"
    and n2: "\<forall>x\<in>set [ex_super_admin, ex_admin]. \<not> matches_contact ''9000000002'' x"
    by (simp_all add: matches_contact_def ex_admin_def ex_super_admin_def
          ex_shadow_supervisor_def ex_supervisor_def)
  have m3: "matches_contact ''9000000003'' ex_guard"
    and n3: "\<forall>x\<in>set [ex_super_admin, ex_admin]. \<not> matches_contact ''9000000003'' x"
    and n3': "\<forall>x\<in>set [ex_shadow_supervisor, ex_supervisor]. \<not> matches_contact ''9000000003'' x"
    by (simp_all add: matches_contact_def ex_admin_def ex_super_admin_def
          ex_shadow_supervisor_def ex_supervisor_def ex_guard_def)
  note T = find_login_user_priority [where B = ex_backend
      and uc = "[ex_super_admin, ex_admin]" and sc = "[ex_shadow_supervisor, ex_supervisor]"
      and gc = "[ex_guard]"]
  have a: "find_login_user ex_backend [ex_super_admin, ex_admin]
             [ex_shadow_supervisor, ex_supervisor] [ex_guard] ''admin@lh.io.in''
           = Inr (ex_admin, ''ADMIN'')"
    using T [where username = "''admin@lh.io.in''", THEN conjunct1, rule_format,
             of "[ex_super_admin]" ex_admin "[]"] m1 n1 r1 by simp
  have b: "find_login_user ex_backend [ex_super_admin, ex_admin]
             [ex_shadow_supervisor, ex_supervisor] [ex_guard] ''9000000002''
           = Inr (ex_shadow_supervisor, ''SUPERVISOR'')"
    using T [where username = "''9000000002''", THEN conjunct2, THEN conjunct1, rule_format,
             of "[]" ex_shadow_supervisor "[ex_supervisor]"] m2 n2 by simp
  have c: "find_login_user ex_backend [ex_super_admin, ex_admin]
             [ex_shadow_supervisor, ex_supervisor] [ex_guard] ''9000000003''
           = Inr (ex_guard, ''GUARD'')"
    using T [where username = "''9000000003''", THEN conjunct2, THEN conjunct2, rule_format,
             of "[]" ex_guard "[]"] m3 n3 n3' by simp
  from a b c show ?thesis by simp
qed

lemma update_one_only_last_login:
  "list_all2 (only_last_login now i) coll
     (update_one (\<lambda>u. oid u = i) (\<lambda>u. u\<lparr>lastLogin := Some now\<rparr>) coll)"
  by (induction coll) (auto simp: only_last_login_def list_all2_same)

lemma only_last_login_refl: "list_all2 (only_last_login now i) coll coll"
  by (simp add: list_all2_same only_last_login_def)

lemma set_last_login_rel:
  "rel_option (list_all2 (only_last_login now i)) c (set_last_login now i c)"
  by (cases c) (auto simp: set_last_login_def update_one_only_last_login)

lemma rel_option_only_last_login_refl:
  "rel_option (list_all2 (only_last_login now i)) c c"
  by (cases c) (auto simp: only_last_login_refl)

lemma update_last_login_frame:
  assumes "update_last_login now d user r = (d', user')"
  shows "otp_tokens d' = otp_tokens d
    \<and> rel_option (list_all2 (only_last_login now (oid user))) (users d) (users d')
    \<and> rel_option (list_all2 (only_last_login now (oid user))) (supervisors d) (supervisors d')
    \<and> rel_option (list_all2 (only_last_login now (oid user))) (guards d) (guards d')
    \<and> (r \<notin> {''ADMIN'', ''SUPERVISOR'', ''GUARD''} \<longrightarrow> d' = d \<and> user' = user)
    \<and> oid user' = oid user"
  using assms
  by (auto simp: update_last_login_def set_last_login_rel rel_option_only_last_login_refl
           split: if_splits)

lemma login_InrD:
  assumes "login m B so em now d username password = (Inr resp, d')"
  shows "\<exists>user r user'.
           update_last_login now d user r = (d', user')
           \<and> resp_role (resp_user resp) = r
           \<and> resp_id (resp_user resp) = so (oid user')"
  using assms
  by (auto simp: login_def split: option.splits if_splits sum.splits prod.splits) blast

text \<open>
  Claim C9. A login that succeeds leaves every collection as it was except for the
  \<open>lastLogin\<close> field of documents with the account's \<^verbatim>\<open>_id\<close>, and changes nothing
  at all unless the role is \<^verbatim>\<open>ADMIN\<close>, \<^verbatim>\<open>SUPERVISOR\<close> or \<^verbatim>\<open>GUARD\<close>. For an active
  \<^verbatim>\<open>SUPER_ADMIN\<close> account with the right password the lookup of the collection fails,
  the failure is swallowed, and the login returns the token with the database unchanged.
\<close>

theorem login_mutates_only_last_login:
  "(login m B so em now d username password = (Inr resp, d')
     \<longrightarrow> (\<exists>i. resp_id (resp_user resp) = so i
            \<and> otp_tokens d' = otp_tokens d
            \<and> rel_option (list_all2 (only_last_login now i)) (users d) (users d')
            \<and> rel_option (list_all2 (only_last_login now i)) (supervisors d) (supervisors d')
            \<and> rel_option (list_all2 (only_last_login now i)) (guards d) (guards d'))
         \<and> (resp_role (resp_user resp) \<notin> {''ADMIN'', ''SUPERVISOR'', ''GUARD''} \<longrightarrow> d' = d))
   \<and> (users d = Some uc \<and> supervisors d = Some sc \<and> guards d = Some gc
       \<and> find_one (matches_contact username) uc = Some a \<and> role a = Some ''SUPER_ADMIN''
       \<and> passwordHash a = Some h \<and> h \<noteq> [] \<and> utf8_encode password \<noteq> None
       \<and> verify_password B password h = Inr True \<and> isActive a = Some True
       \<and> name a = Some n
       \<and> create_access_token m em now
            [''user_id'' \<mapsto> JStr (so (oid a)), ''email'' \<mapsto> opt_jval (email a),
             ''phone'' \<mapsto> opt_jval (phone a), ''role'' \<mapsto> JStr ''SUPER_ADMIN''] = Inr tok
     \<longrightarrow> login m B so em now d username password
          = (Inr \<lparr>access_token = tok, token_type = ''bearer'',
                  resp_user = \<lparr>resp_id = so (oid a), resp_email = email a,
                               resp_phone = phone a, resp_name = n,
                               resp_role = ''SUPER_ADMIN'', resp_areaCity = areaCity a,
                               resp_isActive = Some True, resp_lastLogin = lastLogin a\<rparr>\<rparr>, d))"
proof (intro conjI impI)
  assume A: "login m B so em now d username password = (Inr resp, d')"
  then obtain user r user' where
    u: "update_last_login now d user r = (d', user')"
    and r: "resp_role (resp_user resp) = r"
    and i: "resp_id (resp_user resp) = so (oid user')"
    by (auto dest!: login_InrD)
  from update_last_login_frame[OF u] i
  show "\<exists>i. resp_id (resp_user resp) = so i
            \<and> otp_tokens d' = otp_tokens d
            \<and> rel_option (list_all2 (only_last_login now i)) (users d) (users d')
            \<and> rel_option (list_all2 (only_last_login now i)) (supervisors d) (supervisors d')
            \<and> rel_option (list_all2 (only_last_login now i)) (guards d) (guards d')"
    by (intro exI[of _ "oid user"]) simp
  assume "resp_role (resp_user resp) \<notin> {''ADMIN'', ''SUPERVISOR'', ''GUARD''}"
  with r update_last_login_frame[OF u] show "d' = d" by simp
next
  assume "users d = Some uc \<and> supervisors d = Some sc \<and> guards d = Some gc
       \<and> find_one (matches_contact username) uc = Some a \<and> role a = Some ''SUPER_ADMIN''
       \<and> passwordHash a = Some h \<and> h \<noteq> [] \<and> utf8_encode password \<noteq> None
       \<and> verify_password B password h = Inr True \<and> isActive a = Some True
       \<and> name a = Some n
       \<and> create_access_token m em now
            [''user_id'' \<mapsto> JStr (so (oid a)), ''email'' \<mapsto> opt_jval (email a),
             ''phone'' \<mapsto> opt_jval (phone a), ''role'' \<mapsto> JStr ''SUPER_ADMIN''] = Inr tok"
  then show "login m B so em now d username password
          = (Inr \<lparr>access_token = tok, token_type = ''bearer'',
                  resp_user = \<lparr>resp_id = so (oid a), resp_email = email a,
                               resp_phone = phone a, resp_name = n,
                               resp_role = ''SUPER_ADMIN'', resp_areaCity = areaCity a,
                               resp_isActive = Some True, resp_lastLogin = lastLogin a\<rparr>\<rparr>, d)"
    by (auto simp: login_def find_login_user_def update_last_login_def)
qed

theorem login_mutates_only_last_login_witness:
  "login ex_jwt ex_backend ex_str_object_id 30 1000 ex_db ''root@lh.io.in'' ex_password
     = (Inr \<lparr>access_token = ''h.issued.s'', token_type = ''bearer'',
             resp_user = \<lparr>resp_id = ''4'', resp_email = Some ''root@lh.io.in'',
                          resp_phone = None, resp_name = ''Root'',
                          resp_role = ''SUPER_ADMIN'', resp_areaCity = None,
                          resp_isActive = Some True, resp_lastLogin = None\<rparr>\<rparr>, ex_db)"
proof -
  have h: "users ex_db = Some [ex_super_admin, ex_admin]
       \<and> supervisors ex_db = Some [ex_supervisor, ex_shadow_supervisor]
       \<and> guards ex_db = Some [ex_guard]
       \<and> find_one (matches_contact ''root@lh.io.in'') [ex_super_admin, ex_admin]
           = Some ex_super_admin
       \<and> role ex_super_admin = Some ''SUPER_ADMIN''
       \<and> passwordHash ex_super_admin = Some ex_hash \<and> ex_hash \<noteq> []
       \<and> isActive ex_super_admin = Some True \<and> name ex_super_admin = Some ''Root''"
    by (simp add: ex_db_def find_one_def matches_contact_def ex_super_admin_def ex_admin_def
          ex_hash_def ex_password_def)
  have t: "create_access_token ex_jwt 30 1000
            [''user_id'' \<mapsto> JStr (ex_str_object_id (oid ex_super_admin)),
             ''email'' \<mapsto> opt_jval (email ex_super_admin),
             ''phone'' \<mapsto> opt_jval (phone ex_super_admin),
             ''role'' \<mapsto> JStr ''SUPER_ADMIN''] = Inr ''h.issued.s''"
    by (simp add: create_access_token_def ex_jwt_def pyjwt_def)
  from login_mutates_only_last_login [where m = ex_jwt and B = ex_backend
         and so = ex_str_object_id and em = 30 and now = 1000 and d = ex_db
         and username = "''root@lh.io.in''" and password = ex_password
         and uc = "[ex_super_admin, ex_admin]" and sc = "[ex_supervisor, ex_shadow_supervisor]"
         and gc = "[ex_guard]" and a = ex_super_admin and h = ex_hash and n = "''Root''"
         and tok = "''h.issued.s''", THEN conjunct2] h t ex_verify_ok ex_encode_ok
  show ?thesis
    by (simp add: ex_super_admin_def ex_admin_def ex_str_object_id_def)
qed

lemma find_login_user_unknown:
  "\<forall>x\<in>set (uc @ sc @ gc). \<not> matches_contact username x \<Longrightarrow>
   find_login_user B uc sc gc username
     = Inl (HTTPException 500 (''Database query failed: ''
             @ str_exc B (HTTPException 401 ''Invalid email/phone or password'')))"
  by (simp add: find_login_user_def find_one_none)

text \<open>
  Claim C10. Login checks the password before the \<open>isActive\<close> flag: for an inactive
  account the right password gets 401 with the message that the account is not
  activated, and a wrong password gets 401 with the generic message. The generic message
  is also what the search raises for an unknown identifier, but the \<^verbatim>\<open>except Exception\<close>
  around the search catches that exception: an unknown identifier is answered with 500
  and a detail that starts \<^verbatim>\<open>Database query failed\<close>.
\<close>

theorem login_order_of_checks:
  "(users d = Some uc \<and> supervisors d = Some sc \<and> guards d = Some gc
     \<and> find_login_user B uc sc gc username = Inr (a, r)
     \<and> passwordHash a = Some h \<and> h \<noteq> [] \<and> utf8_encode password \<noteq> None
     \<and> isActive a \<noteq> Some True
    \<longrightarrow> (verify_password B password h = Inr True
          \<longrightarrow> login m B so em now d username password
               = (Inl (HTTPException 401
                    ''Account not activated. Please contact the administrator.''), d))
       \<and> (verify_password B password h = Inr False
          \<longrightarrow> login m B so em now d username password
               = (Inl (HTTPException 401 ''Invalid email/phone or password''), d)))
   \<and> (users d = Some uc \<and> supervisors d = Some sc \<and> guards d = Some gc
      \<and> (\<forall>x\<in>set (uc @ sc @ gc). \<not> matches_contact username x)
    \<longrightarrow> login m B so em now d username password
         = (Inl (HTTPException 500
              (''Database query failed: ''
               @ str_exc B (HTTPException 401 ''Invalid email/phone or password''))), d))"
proof (intro conjI impI)
  assume A: "users d = Some uc \<and> supervisors d = Some sc \<and> guards d = Some gc
     \<and> find_login_user B uc sc gc username = Inr (a, r)
     \<and> passwordHash a = Some h \<and> h \<noteq> [] \<and> utf8_encode password \<noteq> None
     \<and> isActive a \<noteq> Some True"
  {
    assume "verify_password B password h = Inr True"
    with A show "login m B so em now d username password
               = (Inl (HTTPException 401
                    ''Account not activated. Please contact the administrator.''), d)"
      by (auto simp: login_def)
  }
  {
    assume V: "verify_password B password h = Inr False"
    obtain b where "verify_password B [] h = Inr b"
      using verify_password_total by blast
    with A V show "login m B so em now d username password
               = (Inl (HTTPException 401 ''Invalid email/phone or password''), d)"
      by (auto simp: login_def)
  }
next
  assume "users d = Some uc \<and> supervisors d = Some sc \<and> guards d = Some gc
      \<and> (\<forall>x\<in>set (uc @ sc @ gc). \<not> matches_contact username x)"
  then show "login m B so em now d username password
         = (Inl (HTTPException 500
              (''Database query failed: ''
               @ str_exc B (HTTPException 401 ''Invalid email/phone or password''))), d)"
    by (simp add: login_def find_login_user_unknown)
qed

theorem login_order_of_checks_witness:
  "login ex_jwt ex_backend ex_str_object_id 30 1000 ex_db ''9000000003'' ex_password
     = (Inl (HTTPException 401 ''Account not activated. Please contact the administrator.''),
        ex_db)
   \<and> login ex_jwt ex_backend ex_str_object_id 30 1000 ex_db ''9000000003''
        [119, 114, 111, 110, 103]
     = (Inl (HTTPException 401 ''Invalid email/phone or password''), ex_db)
   \<and> login ex_jwt ex_backend ex_str_object_id 30 1000 ex_db ''nobody@lh.io.in'' ex_password
     = (Inl (HTTPException 500
          ''Database query failed: 401: Invalid email/phone or password''), ex_db)"
proof -
  have c: "users ex_db = Some [ex_super_admin, ex_admin]
       \<and> supervisors ex_db = Some [ex_supervisor, ex_shadow_supervisor]
       \<and> guards ex_db = Some [ex_guard]"
    by (simp add: ex_db_def)
  have f: "find_login_user ex_backend [ex_super_admin, ex_admin]
             [ex_supervisor, ex_shadow_supervisor] [ex_guard] ''9000000003''
           = Inr (ex_guard, ''GUARD'')"
    by (simp add: find_login_user_def find_one_def matches_contact_def ex_super_admin_def
          ex_admin_def ex_supervisor_def ex_shadow_supervisor_def ex_guard_def)
  have g: "passwordHash ex_guard = Some ex_hash \<and> ex_hash \<noteq> [] \<and> isActive ex_guard \<noteq> Some True"
    by (simp add: ex_guard_def ex_hash_def ex_password_def)
  have e: "utf8_encode [119, 114, 111, 110, 103] \<noteq> None"
    by code_simp
  have n: "\<forall>x\<in>set ([ex_super_admin, ex_admin] @ [ex_supervisor, ex_shadow_supervisor] @ [ex_guard]).
             \<not> matches_contact ''nobody@lh.io.in'' x"
    by (simp add: matches_contact_def ex_super_admin_def
          ex_admin_def ex_supervisor_def ex_shadow_supervisor_def ex_guard_def)
  have s: "str_exc ex_backend (HTTPException 401 ''Invalid email/phone or password'')
           = ''401: Invalid email/phone or password''"
    by (simp add: ex_backend_def passlib_bcrypt_def exception_str_def digit_def)
  note T = login_order_of_checks [where m = ex_jwt and B = ex_backend
         and so = ex_str_object_id and em = 30 and now = 1000 and d = ex_db
         and uc = "[ex_super_admin, ex_admin]" and sc = "[ex_supervisor, ex_shadow_supervisor]"
         and gc = "[ex_guard]"]
  have 1: "login ex_jwt ex_backend ex_str_object_id 30 1000 ex_db ''9000000003'' ex_password
     = (Inl (HTTPException 401 ''Account not activated. Please contact the administrator.''),
        ex_db)"
    using T [where username = "''9000000003''" and password = ex_password and a = ex_guard
               and r = "''GUARD''" and h = ex_hash, THEN conjunct1]
          c f g ex_encode_ok ex_verify_ok by simp
  have 2: "login ex_jwt ex_backend ex_str_object_id 30 1000 ex_db ''9000000003''
        [119, 114, 111, 110, 103]
     = (Inl (HTTPException 401 ''Invalid email/phone or password''), ex_db)"
    using T [where username = "''9000000003''" and password = "[119, 114, 111, 110, 103]"
               and a = ex_guard and r = "''GUARD''" and h = ex_hash, THEN conjunct1]
          c f g e ex_verify_bad by simp
  have 3: "login ex_jwt ex_backend ex_str_object_id 30 1000 ex_db ''nobody@lh.io.in'' ex_password
     = (Inl (HTTPException 500
          ''Database query failed: 401: Invalid email/phone or password''), ex_db)"
    using T [where username = "''nobody@lh.io.in''" and password = ex_password,
             THEN conjunct2] c n s by simp
  from 1 2 3 show ?thesis by simp
qed

section \<open>Properties of the one-time passwords\<close>

lemma find_one_None_iff: "find_one P xs = None \<longleftrightarrow> (\<forall>x\<in>set xs. \<not> P x)"
  by (auto simp: find_one_def find_None_iff)

lemma find_one_Some_mem: "find_one P xs = Some x \<Longrightarrow> x \<in> set xs \<and> P x"
  by (auto simp: find_one_def find_Some_iff)

lemma delete_one_by_id:
  "distinct (map otp_id coll) \<Longrightarrow>
   delete_one (\<lambda>c. otp_id c = i) coll = filter (\<lambda>c. otp_id c \<noteq> i) coll"
proof (induction coll)
  case Nil
  then show ?case by simp
next
  case (Cons x xs)
  show ?case
  proof (cases "otp_id x = i")
    case True
    with Cons.prems have "i \<notin> otp_id ` set xs" by simp
    then have "\<forall>c\<in>set xs. otp_id c \<noteq> i" by blast
    then have "filter (\<lambda>c. otp_id c \<noteq> i) xs = xs" by (simp add: filter_id_conv)
    with True show ?thesis by simp
  next
    case False
    with Cons show ?thesis by simp
  qed
qed

lemma update_one_by_id:
  "distinct (map otp_id coll) \<Longrightarrow>
   update_one (\<lambda>c. otp_id c = i) f coll = map (\<lambda>c. if otp_id c = i then f c else c) coll"
proof (induction coll)
  case Nil
  then show ?case by simp
next
  case (Cons x xs)
  show ?case
  proof (cases "otp_id x = i")
    case True
    with Cons.prems have "i \<notin> otp_id ` set xs" by simp
    then have "\<forall>c\<in>set xs. otp_id c \<noteq> i" by blast
    then have "map (\<lambda>c. if otp_id c = i then f c else c) xs = xs"
      by (simp add: map_idI)
    with True show ?thesis by simp
  next
    case False
    with Cons show ?thesis by simp
  qed
qed

lemma at_most_one_unique:
  "length (filter P xs) \<le> 1 \<Longrightarrow> x \<in> set xs \<Longrightarrow> P x \<Longrightarrow> y \<in> set xs \<Longrightarrow> P y \<Longrightarrow> x = y"
proof (induction xs)
  case Nil
  then show ?case by simp
next
  case (Cons z zs)
  show ?case
  proof (cases "P z")
    case True
    with Cons.prems have "filter P zs = []" by simp
    then have "\<forall>c\<in>set zs. \<not> P c" by (simp add: filter_empty_conv)
    with Cons.prems True show ?thesis by auto
  next
    case False
    with Cons show ?thesis by auto
  qed
qed

text \<open>
  Claim C2. The OTP check of the password change, on a collection with distinct
  \<^verbatim>\<open>_id\<close>s: without a challenge for the address it fails (400); a challenge past its
  expiry is deleted (400); one with three or more attempts is deleted (429); a code whose
  digest differs from the stored one adds one to the attempts of the challenge, which
  stays (400); otherwise the challenge is deleted and the check passes. When the address
  has no second challenge, the same code finds no challenge afterwards.
\<close>

theorem otp_check_decision_sequence:
  "distinct (map otp_id coll) \<longrightarrow>
   (find_one (is_password_change_otp e) coll = None \<longrightarrow>
      check_password_change_otp sha now coll e otp
        = (Inl (HTTPException 400 ''No OTP found. Please request an OTP first.''), coll))
   \<and> (\<forall>r. find_one (is_password_change_otp e) coll = Some r \<longrightarrow>
        (now > expiresAt r \<longrightarrow>
           check_password_change_otp sha now coll e otp
             = (Inl (HTTPException 400 ''OTP has expired. Please request a new OTP.''),
                filter (\<lambda>c. otp_id c \<noteq> otp_id r) coll))
      \<and> (now \<le> expiresAt r \<and> attempts r \<ge> 3 \<longrightarrow>
           check_password_change_otp sha now coll e otp
             = (Inl (HTTPException 429
                  ''Maximum OTP attempts exceeded. Please request a new OTP.''),
                filter (\<lambda>c. otp_id c \<noteq> otp_id r) coll))
      \<and> (now \<le> expiresAt r \<and> attempts r < 3 \<and> sha otp \<noteq> otpHash r \<longrightarrow>
           check_password_change_otp sha now coll e otp
             = (Inl (HTTPException 400 ''Invalid OTP. Please check and try again.''),
                map (\<lambda>c. if otp_id c = otp_id r then c\<lparr>attempts := attempts c + 1\<rparr> else c)
                  coll))
      \<and> (now \<le> expiresAt r \<and> attempts r < 3 \<and> sha otp = otpHash r \<longrightarrow>
           check_password_change_otp sha now coll e otp
             = (Inr (), filter (\<lambda>c. otp_id c \<noteq> otp_id r) coll)
           \<and> r \<notin> set (filter (\<lambda>c. otp_id c \<noteq> otp_id r) coll)
           \<and> (length (filter (is_password_change_otp e) coll) \<le> 1 \<longrightarrow>
                check_password_change_otp sha now' (filter (\<lambda>c. otp_id c \<noteq> otp_id r) coll)
                  e otp
                = (Inl (HTTPException 400 ''No OTP found. Please request an OTP first.''),
                   filter (\<lambda>c. otp_id c \<noteq> otp_id r) coll))))"
proof (intro impI conjI allI)
  assume "find_one (is_password_change_otp e) coll = None"
  then show "check_password_change_otp sha now coll e otp
        = (Inl (HTTPException 400 ''No OTP found. Please request an OTP first.''), coll)"
    by (simp add: check_password_change_otp_def)
next
  fix r
  assume D: "distinct (map otp_id coll)"
    and F: "find_one (is_password_change_otp e) coll = Some r"
  {
    assume "now > expiresAt r"
    with D F show "check_password_change_otp sha now coll e otp
             = (Inl (HTTPException 400 ''OTP has expired. Please request a new OTP.''),
                filter (\<lambda>c. otp_id c \<noteq> otp_id r) coll)"
      by (simp add: check_password_change_otp_def delete_one_by_id)
  }
  {
    assume "now \<le> expiresAt r \<and> attempts r \<ge> 3"
    with D F show "check_password_change_otp sha now coll e otp
             = (Inl (HTTPException 429
                  ''Maximum OTP attempts exceeded. Please request a new OTP.''),
                filter (\<lambda>c. otp_id c \<noteq> otp_id r) coll)"
      by (simp add: check_password_change_otp_def delete_one_by_id)
  }
  {
    assume "now \<le> expiresAt r \<and> attempts r < 3 \<and> sha otp \<noteq> otpHash r"
    with D F show "check_password_change_otp sha now coll e otp
             = (Inl (HTTPException 400 ''Invalid OTP. Please check and try again.''),
                map (\<lambda>c. if otp_id c = otp_id r then c\<lparr>attempts := attempts c + 1\<rparr> else c)
                  coll)"
      by (simp add: check_password_change_otp_def update_one_by_id verify_otp_def)
  }
  {
    assume "now \<le> expiresAt r \<and> attempts r < 3 \<and> sha otp = otpHash r"
    with D F show "check_password_change_otp sha now coll e otp
             = (Inr (), filter (\<lambda>c. otp_id c \<noteq> otp_id r) coll)"
      by (simp add: check_password_change_otp_def delete_one_by_id verify_otp_def)
    show "r \<notin> set (filter (\<lambda>c. otp_id c \<noteq> otp_id r) coll)" by simp
    assume L: "length (filter (is_password_change_otp e) coll) \<le> 1"
    from F have R: "r \<in> set coll \<and> is_password_change_otp e r" by (rule find_one_Some_mem)
    have "\<forall>c\<in>set (filter (\<lambda>c. otp_id c \<noteq> otp_id r) coll). \<not> is_password_change_otp e c"
    proof
      fix c assume c: "c \<in> set (filter (\<lambda>c. otp_id c \<noteq> otp_id r) coll)"
      show "\<not> is_password_change_otp e c"
      proof
        assume "is_password_change_otp e c"
        with L R c have "c = r" using at_most_one_unique [of "is_password_change_otp e" coll c r]
          by simp
        with c show False by simp
      qed
    qed
    then have "find_one (is_password_change_otp e) (filter (\<lambda>c. otp_id c \<noteq> otp_id r) coll) = None"
      by (rule find_one_none)
    then show "check_password_change_otp sha now' (filter (\<lambda>c. otp_id c \<noteq> otp_id r) coll)
                  e otp
                = (Inl (HTTPException 400 ''No OTP found. Please request an OTP first.''),
                   filter (\<lambda>c. otp_id c \<noteq> otp_id r) coll)"
      by (simp add: check_password_change_otp_def)
  }
qed

theorem otp_check_decision_sequence_witness:
  "check_password_change_otp ex_sha 1000 [ex_pending_otp] ''root@lh.io.in'' ''123456''
     = (Inr (), [])
   \<and> check_password_change_otp ex_sha 1001 [] ''root@lh.io.in'' ''123456''
     = (Inl (HTTPException 400 ''No OTP found. Please request an OTP first.''), [])
   \<and> check_password_change_otp ex_sha 1000 [ex_pending_otp] ''root@lh.io.in'' ''654321''
     = (Inl (HTTPException 400 ''Invalid OTP. Please check and try again.''),
        [ex_pending_otp\<lparr>attempts := 1\<rparr>])
   \<and> check_password_change_otp ex_sha 1481 [ex_pending_otp] ''root@lh.io.in'' ''123456''
     = (Inl (HTTPException 400 ''OTP has expired. Please request a new OTP.''), [])
   \<and> check_password_change_otp ex_sha 1000 [ex_pending_otp\<lparr>attempts := 3\<rparr>]
        ''root@lh.io.in'' ''123456''
     = (Inl (HTTPException 429 ''Maximum OTP attempts exceeded. Please request a new OTP.''), [])"
proof -
  have d: "distinct (map otp_id [ex_pending_otp])"
    and d3: "distinct (map otp_id [ex_pending_otp\<lparr>attempts := 3\<rparr>])" by simp_all
  have f: "find_one (is_password_change_otp ''root@lh.io.in'') [ex_pending_otp]
           = Some ex_pending_otp"
    and f3: "find_one (is_password_change_otp ''root@lh.io.in'') [ex_pending_otp\<lparr>attempts := 3\<rparr>]
           = Some (ex_pending_otp\<lparr>attempts := 3\<rparr>)"
    by (simp_all add: find_one_def is_password_change_otp_def ex_pending_otp_def)
  have v: "expiresAt ex_pending_otp = 1480 \<and> attempts ex_pending_otp = 0
           \<and> otpHash ex_pending_otp = ex_sha ''123456''
           \<and> ex_sha ''654321'' \<noteq> ex_sha ''123456''"
    by (simp add: ex_pending_otp_def ex_sha_def)
  have l: "length (filter (is_password_change_otp ''root@lh.io.in'') [ex_pending_otp]) \<le> 1"
    by simp
  note T = otp_check_decision_sequence [where e = "''root@lh.io.in''" and sha = ex_sha
             and now' = 1001]
  have 1: "check_password_change_otp ex_sha 1000 [ex_pending_otp] ''root@lh.io.in'' ''123456''
     = (Inr (), [])"
    using T [where coll = "[ex_pending_otp]" and now = 1000 and otp = "''123456''"] d f v
    by simp
  have 2: "check_password_change_otp ex_sha 1001 [] ''root@lh.io.in'' ''123456''
     = (Inl (HTTPException 400 ''No OTP found. Please request an OTP first.''), [])"
    using T [where coll = "[ex_pending_otp]" and now = 1000 and otp = "''123456''"] d f v l
    by simp
  have 3: "check_password_change_otp ex_sha 1000 [ex_pending_otp] ''root@lh.io.in'' ''654321''
     = (Inl (HTTPException 400 ''Invalid OTP. Please check and try again.''),
        [ex_pending_otp\<lparr>attempts := 1\<rparr>])"
    using T [where coll = "[ex_pending_otp]" and now = 1000 and otp = "''654321''"] d f v
    by simp
  have 4: "check_password_change_otp ex_sha 1481 [ex_pending_otp] ''root@lh.io.in'' ''123456''
     = (Inl (HTTPException 400 ''OTP has expired. Please request a new OTP.''), [])"
    using T [where coll = "[ex_pending_otp]" and now = 1481 and otp = "''123456''"] d f v
    by simp
  have 5: "check_password_change_otp ex_sha 1000 [ex_pending_otp\<lparr>attempts := 3\<rparr>]
        ''root@lh.io.in'' ''123456''
     = (Inl (HTTPException 429 ''Maximum OTP attempts exceeded. Please request a new OTP.''), [])"
    using T [where coll = "[ex_pending_otp\<lparr>attempts := 3\<rparr>]" and now = 1000
               and otp = "''123456''"] d3 f3 v
    by simp
  from 1 2 3 4 5 show ?thesis by simp
qed

lemma delete_one_appended:
  "P x \<Longrightarrow> delete_one P (filter (\<lambda>c. \<not> P c) xs @ [x]) = filter (\<lambda>c. \<not> P c) xs"
  by (induction xs) auto

lemma request_otp_stored:
  assumes "otp_tokens d = Some coll" "email a = Some e" "e \<noteq> []"
    and "\<not> (\<exists>c\<in>set coll. is_password_change_otp e c \<and> createdAt c \<ge> now - 60)"
  shows "request_password_change_otp S now d a =
     (if send_otp_email S e (generate_otp (randbelow S)) ''password change''
      then (Inr (''OTP sent to '' @ e @ ''. Please check your email. OTP expires in 10 minutes.''),
            d\<lparr>otp_tokens := Some (filter (\<lambda>c. \<not> is_password_change_otp e c) coll
                                    @ [new_otp_doc S now e])\<rparr>)
      else (Inl (HTTPException 500 ''Failed to send OTP email. Please try again.''),
            d\<lparr>otp_tokens := Some (filter (\<lambda>c. \<not> is_password_change_otp e c) coll)\<rparr>))"
proof -
  have n: "find_one (\<lambda>c. is_password_change_otp e c \<and> createdAt c \<ge> now - 60) coll = None"
    using assms(4) by (auto simp: find_one_None_iff)
  have p: "is_password_change_otp e (new_otp_doc S now e)"
    by (simp add: is_password_change_otp_def new_otp_doc_def)
  show ?thesis
    using assms(1-3) n p
    by (simp add: request_password_change_otp_def Let_def insert_one_def delete_many_def
          delete_one_appended new_otp_doc_def [symmetric])
qed

lemma request_otp_limited:
  assumes "otp_tokens d = Some coll" "email a = Some e" "e \<noteq> []"
    and "\<exists>c\<in>set coll. is_password_change_otp e c \<and> createdAt c \<ge> now - 60"
  shows "request_password_change_otp S now d a =
     (Inl (HTTPException 429 ''Please wait 1 minute before requesting another OTP''), d)"
proof -
  have n: "find_one (\<lambda>c. is_password_change_otp e c \<and> createdAt c \<ge> now - 60) coll \<noteq> None"
    using assms(4) by (auto simp: find_one_None_iff)
  show ?thesis
    using assms(1-3) n by (simp add: request_password_change_otp_def)
qed

lemma challenges_for_other:
  assumes "filter (\<lambda>c. \<not> is_password_change_otp e c) coll'
           = filter (\<lambda>c. \<not> is_password_change_otp e c) coll"
    and "\<not> (e' = e \<and> p' = ''PASSWORD_CHANGE'')"
  shows "challenges_for e' p' coll' = challenges_for e' p' coll"
proof -
  have k: "filter (\<lambda>c. otp_email c = e' \<and> purpose c = p')
             (filter (\<lambda>c. \<not> is_password_change_otp e c) xs)
           = challenges_for e' p' xs" for xs
    unfolding challenges_for_def filter_filter
    using assms(2) by (intro filter_cong) (auto simp: is_password_change_otp_def)
  have "filter (\<lambda>c. otp_email c = e' \<and> purpose c = p')
          (filter (\<lambda>c. \<not> is_password_change_otp e c) coll')
        = filter (\<lambda>c. otp_email c = e' \<and> purpose c = p')
          (filter (\<lambda>c. \<not> is_password_change_otp e c) coll)"
    using assms(1) by (simp only:)
  then show ?thesis by (simp only: k)
qed

lemma ex_generate_otp: "generate_otp 4821 = ''004821''"
  by (simp add: generate_otp_def digit_def)

text \<open>
  Claim C7 names the setting \<open>OTP_RATE_LIMIT_MINUTES\<close> as the window of the rate limit.
  The route does not read it: in a deployment that sets it to 5, a challenge created two
  minutes ago does not stop a new request.
\<close>

theorem request_otp_window_counterexample:
  "OTP_RATE_LIMIT_MINUTES ex_settings = 5
   \<and> otp_tokens ex_db_pending = Some [ex_pending_otp]
   \<and> is_password_change_otp ''root@lh.io.in'' ex_pending_otp
   \<and> createdAt ex_pending_otp \<ge> 1000 - 60 * OTP_RATE_LIMIT_MINUTES ex_settings
   \<and> request_password_change_otp ex_services 1000 ex_db_pending ex_super_admin
       = (Inr ''OTP sent to root@lh.io.in. Please check your email. OTP expires in 10 minutes.'',
          ex_db\<lparr>otp_tokens := Some [\<lparr>otp_id = 7, otp_email = ''root@lh.io.in'',
                                    otpHash = ex_sha ''004821'', purpose = ''PASSWORD_CHANGE'',
                                    expiresAt = 1600, attempts = 0, createdAt = 1000\<rparr>]\<rparr>)"
  by (simp add: ex_settings_def default_settings_def ex_db_pending_def ex_pending_otp_def
        is_password_change_otp_def request_password_change_otp_def ex_super_admin_def
        ex_admin_def find_one_def ex_services_def ex_generate_otp hash_otp_def
        insert_one_def delete_many_def Let_def)

lemma challenges_for_password_change:
  "challenges_for e ''PASSWORD_CHANGE'' xs = filter (is_password_change_otp e) xs"
  by (simp add: challenges_for_def is_password_change_otp_def [abs_def])

lemma recent_iff_most_recent:
  "(\<exists>c\<in>set coll. is_password_change_otp e c \<and> createdAt c \<ge> t)
   \<longleftrightarrow> challenges_for e ''PASSWORD_CHANGE'' coll \<noteq> []
       \<and> t \<le> Max (createdAt ` set (challenges_for e ''PASSWORD_CHANGE'' coll))"
proof (cases "challenges_for e ''PASSWORD_CHANGE'' coll = []")
  case True
  then have "\<forall>c\<in>set coll. \<not> is_password_change_otp e c"
    by (simp add: challenges_for_password_change filter_empty_conv)
  with True show ?thesis by auto
next
  case False
  then have ne: "createdAt ` set (challenges_for e ''PASSWORD_CHANGE'' coll) \<noteq> {}" by simp
  have "t \<le> Max (createdAt ` set (challenges_for e ''PASSWORD_CHANGE'' coll))
        \<longleftrightarrow> (\<exists>a\<in>createdAt ` set (challenges_for e ''PASSWORD_CHANGE'' coll). t \<le> a)"
    using ne by (intro Max_ge_iff) simp_all
  also have "\<dots> \<longleftrightarrow> (\<exists>c\<in>set coll. is_password_change_otp e c \<and> createdAt c \<ge> t)"
    by (auto simp: challenges_for_password_change)
  finally show ?thesis using False by simp
qed

lemma request_otp_writes_eq:
  "request_password_change_otp_writes S now coll e =
     [filter (\<lambda>c. \<not> is_password_change_otp e c) coll,
      filter (\<lambda>c. \<not> is_password_change_otp e c) coll @ [new_otp_doc S now e]]
     @ (if send_otp_email S e (generate_otp (randbelow S)) ''password change'' then []
        else [filter (\<lambda>c. \<not> is_password_change_otp e c) coll])"
proof -
  have p: "is_password_change_otp e (new_otp_doc S now e)"
    by (simp add: is_password_change_otp_def new_otp_doc_def)
  show ?thesis
    using p
    by (simp add: request_password_change_otp_writes_def Let_def insert_one_def
          delete_many_def delete_one_appended)
qed

lemma length_filter_live:
  "length xs \<le> 1 \<Longrightarrow> length (filter (live t) xs) \<le> 1"
  using length_filter_le [of "live t" xs] by (rule order_trans)

text \<open>
  Claim C7, with the window the route uses. A request for an address is refused with 429
  exactly when the most recent challenge for that address was created within the last 60
  seconds. Otherwise every earlier challenge for the address is deleted before the new
  one is inserted: after each write of the request the address has no challenge but the
  new one, so at most one challenge, and at most one live challenge at any time, while the
  challenges of other addresses and purposes stay as they are. If every address and
  purpose had at most one challenge before the request, so it has after each write.
\<close>

theorem request_otp_rate_limit_and_replace:
  "otp_tokens d = Some coll \<and> email a = Some e \<and> e \<noteq> [] \<longrightarrow>
     (request_password_change_otp S now d a
        = (Inl (HTTPException 429 ''Please wait 1 minute before requesting another OTP''), d)
      \<longleftrightarrow> challenges_for e ''PASSWORD_CHANGE'' coll \<noteq> []
          \<and> now - 60 \<le> Max (createdAt ` set (challenges_for e ''PASSWORD_CHANGE'' coll)))
   \<and> ((\<exists>c\<in>set coll. is_password_change_otp e c \<and> createdAt c \<ge> now - 60) \<longrightarrow>
        request_password_change_otp S now d a
          = (Inl (HTTPException 429 ''Please wait 1 minute before requesting another OTP''), d))
   \<and> (\<not> (\<exists>c\<in>set coll. is_password_change_otp e c \<and> createdAt c \<ge> now - 60) \<longrightarrow>
        request_password_change_otp S now d a
          = (if send_otp_email S e (generate_otp (randbelow S)) ''password change''
             then (Inr (''OTP sent to '' @ e
                        @ ''. Please check your email. OTP expires in 10 minutes.''),
                   d\<lparr>otp_tokens := Some (filter (\<lambda>c. \<not> is_password_change_otp e c) coll
                                           @ [new_otp_doc S now e])\<rparr>)
             else (Inl (HTTPException 500 ''Failed to send OTP email. Please try again.''),
                   d\<lparr>otp_tokens := Some (filter (\<lambda>c. \<not> is_password_change_otp e c) coll)\<rparr>))
        \<and> otp_tokens (snd (request_password_change_otp S now d a))
            = Some (last (request_password_change_otp_writes S now coll e))
        \<and> hd (request_password_change_otp_writes S now coll e)
            = filter (\<lambda>c. \<not> is_password_change_otp e c) coll
        \<and> (\<forall>st\<in>set (request_password_change_otp_writes S now coll e).
              (\<forall>c\<in>set st. is_password_change_otp e c \<longrightarrow> c = new_otp_doc S now e)
              \<and> length (challenges_for e ''PASSWORD_CHANGE'' st) \<le> 1
              \<and> (\<forall>t. length (filter (live t) (challenges_for e ''PASSWORD_CHANGE'' st)) \<le> 1)
              \<and> filter (\<lambda>c. \<not> is_password_change_otp e c) st
                  = filter (\<lambda>c. \<not> is_password_change_otp e c) coll)
        \<and> (send_otp_email S e (generate_otp (randbelow S)) ''password change'' \<longrightarrow>
              challenges_for e ''PASSWORD_CHANGE''
                (last (request_password_change_otp_writes S now coll e))
              = [new_otp_doc S now e])
        \<and> ((\<forall>e' p'. length (challenges_for e' p' coll) \<le> 1) \<longrightarrow>
              (\<forall>st\<in>set (request_password_change_otp_writes S now coll e).
                 \<forall>e' p' t. length (challenges_for e' p' st) \<le> 1
                          \<and> length (filter (live t) (challenges_for e' p' st)) \<le> 1)))"
proof (intro impI)
  assume A: "otp_tokens d = Some coll \<and> email a = Some e \<and> e \<noteq> []"
  let ?pc = "is_password_change_otp e"
  let ?rest = "filter (\<lambda>c. \<not> ?pc c) coll"
  let ?new = "new_otp_doc S now e"
  let ?sent = "send_otp_email S e (generate_otp (randbelow S)) ''password change''"
  let ?W = "request_password_change_otp_writes S now coll e"
  let ?recent = "\<exists>c\<in>set coll. ?pc c \<and> createdAt c \<ge> now - 60"
  let ?limited = "(Inl (HTTPException 429 ''Please wait 1 minute before requesting another OTP''), d)"
  have p: "?pc ?new"
    by (simp add: is_password_change_otp_def new_otp_doc_def)
  have W: "?W = [?rest, ?rest @ [?new]] @ (if ?sent then [] else [?rest])"
    by (rule request_otp_writes_eq)
  have lim: "?recent \<longrightarrow> request_password_change_otp S now d a = ?limited"
    using A by (simp add: request_otp_limited)
  have sto: "\<not> ?recent \<longrightarrow> request_password_change_otp S now d a
          = (if ?sent
             then (Inr (''OTP sent to '' @ e
                        @ ''. Please check your email. OTP expires in 10 minutes.''),
                   d\<lparr>otp_tokens := Some (?rest @ [?new])\<rparr>)
             else (Inl (HTTPException 500 ''Failed to send OTP email. Please try again.''),
                   d\<lparr>otp_tokens := Some ?rest\<rparr>))"
    using A request_otp_stored [of d coll a e now S] by simp
  have iff: "request_password_change_otp S now d a = ?limited \<longleftrightarrow> ?recent"
  proof (cases ?recent)
    case True
    with lim show ?thesis by simp
  next
    case False
    with sto show ?thesis by (simp split: if_splits)
  qed
  have last: "\<not> ?recent \<longrightarrow> otp_tokens (snd (request_password_change_otp S now d a)) = Some (last ?W)"
    using sto by (simp add: W)
  have hd: "hd ?W = ?rest" by (simp add: W)
  have st: "st = ?rest \<or> st = ?rest @ [?new]" if "st \<in> set ?W" for st
    using that by (auto simp: W split: if_splits)
  have each: "(\<forall>c\<in>set st. ?pc c \<longrightarrow> c = ?new)
              \<and> length (challenges_for e ''PASSWORD_CHANGE'' st) \<le> 1
              \<and> (\<forall>t. length (filter (live t) (challenges_for e ''PASSWORD_CHANGE'' st)) \<le> 1)
              \<and> filter (\<lambda>c. \<not> ?pc c) st = ?rest" if "st \<in> set ?W" for st
  proof -
    from st [OF that] p have 1: "\<forall>c\<in>set st. ?pc c \<longrightarrow> c = ?new" by auto
    from st [OF that] p have 2: "length (challenges_for e ''PASSWORD_CHANGE'' st) \<le> 1"
      by (auto simp: challenges_for_password_change)
    from st [OF that] p have 4: "filter (\<lambda>c. \<not> ?pc c) st = ?rest" by auto
    from 2 have 3: "\<forall>t. length (filter (live t) (challenges_for e ''PASSWORD_CHANGE'' st)) \<le> 1"
      by (blast intro: length_filter_live)
    from 1 2 3 4 show ?thesis by (intro conjI)
  qed
  have sent: "?sent \<longrightarrow> challenges_for e ''PASSWORD_CHANGE'' (last ?W) = [?new]"
    using p by (simp add: W challenges_for_password_change)
  have inv: "(\<forall>e' p'. length (challenges_for e' p' coll) \<le> 1) \<longrightarrow>
              (\<forall>st\<in>set ?W. \<forall>e' p' t. length (challenges_for e' p' st) \<le> 1
                          \<and> length (filter (live t) (challenges_for e' p' st)) \<le> 1)"
  proof (intro impI ballI allI)
    fix st e' p' t
    assume I: "\<forall>e' p'. length (challenges_for e' p' coll) \<le> 1" and m: "st \<in> set ?W"
    have l: "length (challenges_for e' p' st) \<le> 1"
    proof (cases "e' = e \<and> p' = ''PASSWORD_CHANGE''")
      case True
      with each [OF m] show ?thesis by simp
    next
      case False
      from each [OF m] have "filter (\<lambda>c. \<not> ?pc c) st = ?rest" by simp
      from challenges_for_other [OF this False] I show ?thesis by simp
    qed
    then show "length (challenges_for e' p' st) \<le> 1
               \<and> length (filter (live t) (challenges_for e' p' st)) \<le> 1"
      by (blast intro: length_filter_live)
  qed
  show "(request_password_change_otp S now d a = ?limited
      \<longleftrightarrow> challenges_for e ''PASSWORD_CHANGE'' coll \<noteq> []
          \<and> now - 60 \<le> Max (createdAt ` set (challenges_for e ''PASSWORD_CHANGE'' coll)))
   \<and> (?recent \<longrightarrow> request_password_change_otp S now d a = ?limited)
   \<and> (\<not> ?recent \<longrightarrow>
        request_password_change_otp S now d a
          = (if ?sent
             then (Inr (''OTP sent to '' @ e
                        @ ''. Please check your email. OTP expires in 10 minutes.''),
                   d\<lparr>otp_tokens := Some (?rest @ [?new])\<rparr>)
             else (Inl (HTTPException 500 ''Failed to send OTP email. Please try again.''),
                   d\<lparr>otp_tokens := Some ?rest\<rparr>))
        \<and> otp_tokens (snd (request_password_change_otp S now d a)) = Some (last ?W)
        \<and> hd ?W = ?rest
        \<and> (\<forall>st\<in>set ?W.
              (\<forall>c\<in>set st. ?pc c \<longrightarrow> c = ?new)
              \<and> length (challenges_for e ''PASSWORD_CHANGE'' st) \<le> 1
              \<and> (\<forall>t. length (filter (live t) (challenges_for e ''PASSWORD_CHANGE'' st)) \<le> 1)
              \<and> filter (\<lambda>c. \<not> ?pc c) st = ?rest)
        \<and> (?sent \<longrightarrow> challenges_for e ''PASSWORD_CHANGE'' (last ?W) = [?new])
        \<and> ((\<forall>e' p'. length (challenges_for e' p' coll) \<le> 1) \<longrightarrow>
              (\<forall>st\<in>set ?W. \<forall>e' p' t. length (challenges_for e' p' st) \<le> 1
                          \<and> length (filter (live t) (challenges_for e' p' st)) \<le> 1)))"
    using iff recent_iff_most_recent [of coll e "now - 60"] lim sto last hd each sent inv
    by blast
qed

theorem request_otp_rate_limit_and_replace_witness:
  "request_password_change_otp ex_services 900 ex_db_pending ex_super_admin
     = (Inl (HTTPException 429 ''Please wait 1 minute before requesting another OTP''),
        ex_db_pending)
   \<and> request_password_change_otp ex_services 1000 ex_db_pending ex_super_admin
     = (Inr ''OTP sent to root@lh.io.in. Please check your email. OTP expires in 10 minutes.'',
        ex_db_pending\<lparr>otp_tokens := Some [new_otp_doc ex_services 1000 ''root@lh.io.in'']\<rparr>)
   \<and> request_password_change_otp ex_services_unsent 1000 ex_db_pending ex_super_admin
     = (Inl (HTTPException 500 ''Failed to send OTP email. Please try again.''),
        ex_db_pending\<lparr>otp_tokens := Some []\<rparr>)
   \<and> challenges_for ''root@lh.io.in'' ''PASSWORD_CHANGE''
        (last (request_password_change_otp_writes ex_services 1000 [ex_pending_otp]
                 ''root@lh.io.in''))
     = [new_otp_doc ex_services 1000 ''root@lh.io.in'']"
proof -
  have a: "otp_tokens ex_db_pending = Some [ex_pending_otp]
           \<and> email ex_super_admin = Some ''root@lh.io.in'' \<and> ''root@lh.io.in'' \<noteq> []"
    by (simp add: ex_db_pending_def ex_super_admin_def ex_admin_def)
  have w: "\<exists>c\<in>set [ex_pending_otp].
             is_password_change_otp ''root@lh.io.in'' c \<and> createdAt c \<ge> 900 - 60"
    by (simp add: is_password_change_otp_def ex_pending_otp_def)
  have n: "\<not> (\<exists>c\<in>set [ex_pending_otp].
             is_password_change_otp ''root@lh.io.in'' c \<and> createdAt c \<ge> 1000 - 60)"
    by (simp add: is_password_change_otp_def ex_pending_otp_def)
  have s: "send_otp_email ex_services ''root@lh.io.in'' (generate_otp (randbelow ex_services))
             ''password change''"
    by (simp add: ex_services_def)
  have u: "\<not> send_otp_email ex_services_unsent ''root@lh.io.in''
               (generate_otp (randbelow ex_services_unsent)) ''password change''"
    by (simp add: ex_services_unsent_def)
  have f: "filter (\<lambda>c. \<not> is_password_change_otp ''root@lh.io.in'' c) [ex_pending_otp] = []"
    by (simp add: is_password_change_otp_def ex_pending_otp_def)
  note T = request_otp_rate_limit_and_replace [where d = ex_db_pending
      and coll = "[ex_pending_otp]" and a = ex_super_admin and e = "''root@lh.io.in''"]
  have 1: "request_password_change_otp ex_services 900 ex_db_pending ex_super_admin
     = (Inl (HTTPException 429 ''Please wait 1 minute before requesting another OTP''),
        ex_db_pending)"
    using T [where now = 900 and S = ex_services] a w by blast
  have "request_password_change_otp ex_services 1000 ex_db_pending ex_super_admin
     = (if send_otp_email ex_services ''root@lh.io.in'' (generate_otp (randbelow ex_services))
             ''password change''
        then (Inr (''OTP sent to '' @ ''root@lh.io.in''
                        @ ''. Please check your email. OTP expires in 10 minutes.''),
              ex_db_pending\<lparr>otp_tokens :=
                 Some (filter (\<lambda>c. \<not> is_password_change_otp ''root@lh.io.in'' c) [ex_pending_otp]
                       @ [new_otp_doc ex_services 1000 ''root@lh.io.in''])\<rparr>)
        else (Inl (HTTPException 500 ''Failed to send OTP email. Please try again.''),
              ex_db_pending\<lparr>otp_tokens :=
                 Some (filter (\<lambda>c. \<not> is_password_change_otp ''root@lh.io.in'' c)
                         [ex_pending_otp])\<rparr>))"
    using T [where now = 1000 and S = ex_services] a n by blast
  with s f have 2: "request_password_change_otp ex_services 1000 ex_db_pending ex_super_admin
     = (Inr ''OTP sent to root@lh.io.in. Please check your email. OTP expires in 10 minutes.'',
        ex_db_pending\<lparr>otp_tokens := Some [new_otp_doc ex_services 1000 ''root@lh.io.in'']\<rparr>)"
    by simp
  have "request_password_change_otp ex_services_unsent 1000 ex_db_pending ex_super_admin
     = (if send_otp_email ex_services_unsent ''root@lh.io.in''
             (generate_otp (randbelow ex_services_unsent)) ''password change''
        then (Inr (''OTP sent to '' @ ''root@lh.io.in''
                        @ ''. Please check your email. OTP expires in 10 minutes.''),
              ex_db_pending\<lparr>otp_tokens :=
                 Some (filter (\<lambda>c. \<not> is_password_change_otp ''root@lh.io.in'' c) [ex_pending_otp]
                       @ [new_otp_doc ex_services_unsent 1000 ''root@lh.io.in''])\<rparr>)
        else (Inl (HTTPException 500 ''Failed to send OTP email. Please try again.''),
              ex_db_pending\<lparr>otp_tokens :=
                 Some (filter (\<lambda>c. \<not> is_password_change_otp ''root@lh.io.in'' c)
                         [ex_pending_otp])\<rparr>))"
    using T [where now = 1000 and S = ex_services_unsent] a n by blast
  with u f have 3: "request_password_change_otp ex_services_unsent 1000 ex_db_pending
       ex_super_admin
     = (Inl (HTTPException 500 ''Failed to send OTP email. Please try again.''),
        ex_db_pending\<lparr>otp_tokens := Some []\<rparr>)"
    by simp
  have 4: "challenges_for ''root@lh.io.in'' ''PASSWORD_CHANGE''
        (last (request_password_change_otp_writes ex_services 1000 [ex_pending_otp]
                 ''root@lh.io.in''))
     = [new_otp_doc ex_services 1000 ''root@lh.io.in'']"
    using T [where now = 1000 and S = ex_services] a n s by blast
  from 1 2 3 4 show ?thesis by (intro conjI)
qed

end
